theory Spec2Isabelle
  imports Main
begin

section \<open>Python string operations used by gitstaller.py\<close>

text \<open>
  Python strings are modelled as \<open>string\<close> (a list of characters). The program only
  splits on single-character separators (\<open>'/'\<close>, a newline, a tab), indexes the pieces
  and calls \<open>str.replace\<close>.

  \<open>py_split sep s\<close> is \<open>s.split(sep)\<close> for a one-character separator: the pieces between
  the occurrences of \<open>sep\<close>. The result is never empty; \<open>''.split(sep)\<close> is the
  one-element list holding the empty string.
\<close>

fun py_split :: "char \<Rightarrow> string \<Rightarrow> string list" where
  "py_split sep [] = [[]]"
| "py_split sep (c # cs) =
     (if c = sep then [] # py_split sep cs
      else (case py_split sep cs of
              [] \<Rightarrow> [[c]]
            | w # ws \<Rightarrow> (c # w) # ws))"

text \<open>
  \<open>py_replace old new s\<close> is \<open>s.replace(old, new)\<close>: every occurrence of \<open>old\<close>, found
  left to right without overlap, is replaced by \<open>new\<close>. For an empty \<open>old\<close> Python puts
  \<open>new\<close> before every character and at the end.
\<close>

fun replace_scan :: "string \<Rightarrow> string \<Rightarrow> nat \<Rightarrow> string \<Rightarrow> string" where
  "replace_scan old new skip [] = []"
| "replace_scan old new (Suc k) (c # cs) = replace_scan old new k cs"
| "replace_scan old new 0 (c # cs) =
     (if take (length old) (c # cs) = old
      then new @ replace_scan old new (length old - 1) cs
      else c # replace_scan old new 0 cs)"

definition py_replace :: "string \<Rightarrow> string \<Rightarrow> string \<Rightarrow> string" where
  "py_replace old new s =
     (if old = [] then new @ concat (map (\<lambda>c. c # new) s)
      else replace_scan old new 0 s)"

section \<open>Package name derivation\<close>

text \<open>
  \<^verbatim>\<open>
  def _extract_name(self, repo_url):
      """Extract package name from repository URL"""
      return repo_url.split('/')[-1].replace('.git', '')
  \<close>
  \<open>split\<close> never returns an empty list, so \<open>[-1]\<close> is \<open>last\<close> and cannot raise.
\<close>

definition extract_name :: "string \<Rightarrow> string" where
  "extract_name repo_url = py_replace ''.git'' '''' (last (py_split CHR ''/'' repo_url))"

section \<open>Exceptions\<close>

text \<open>
  The exceptions the program can meet. \<open>install\<close> catches \<open>GitCommandError\<close> and
  \<open>PermissionError\<close>, \<open>update\<close> catches \<open>GitCommandError\<close>, \<open>_build_package\<close> catches
  \<open>CalledProcessError\<close>; every other exception leaves the method uncaught (\<open>main\<close> catches
  \<open>ValueError\<close> only, which no method raises). \<open>OSError\<close> stands for the operating-system
  errors other than \<open>PermissionError\<close> (a missing executable, for instance).
\<close>

datatype py_error =
    GitCommandError
  | PermissionError
  | CalledProcessError
  | IndexError
  | TypeError
  | AttributeError
  | NoSuchPathError
  | OSError

section \<open>distutils.version.LooseVersion\<close>

text \<open>
  \<open>LooseVersion\<close> is the standard library's class, used by the program as a sort key:
  \<^verbatim>\<open>
  component_re = re.compile(r'(\d+ | [a-z]+ | \.)', re.VERBOSE)
  def __init__(self, vstring=None):
      if vstring: self.parse(vstring)
  def parse(self, vstring):
      components = [x for x in self.component_re.split(vstring) if x and x != '.']
      for i, obj in enumerate(components):
          try: components[i] = int(obj)
          except ValueError: pass
      self.version = components
  def _cmp(self, other):
      if self.version == other.version: return 0
      if self.version < other.version: return -1
      if self.version > other.version: return 1
  \<close>
  \<open>re.split\<close> with a capturing group cuts the string into maximal runs of digits, maximal
  runs of lower-case letters, single dots, and the text in between (maximal runs of any
  other character). Strings are ASCII here.
\<close>

datatype char_class = Digit | Lower | Dot | Other

definition class_of :: "char \<Rightarrow> char_class" where
  "class_of c =
     (let n = (of_char c :: nat) in
      if 48 \<le> n \<and> n \<le> 57 then Digit
      else if 97 \<le> n \<and> n \<le> 122 then Lower
      else if c = CHR ''.'' then Dot
      else Other)"

fun runs :: "string \<Rightarrow> string list" where
  "runs [] = []"
| "runs (c # cs) =
     (case runs cs of
        [] \<Rightarrow> [[c]]
      | r # rs \<Rightarrow>
          (if class_of c \<noteq> Dot \<and> class_of c = class_of (hd r) then (c # r) # rs
           else [c] # r # rs))"

datatype component = Num nat | Str string

definition int_of_digits :: "string \<Rightarrow> nat" where
  "int_of_digits ds = foldl (\<lambda>n d. 10 * n + (of_char d - 48)) 0 ds"

text \<open>
  \<open>int(obj)\<close> succeeds on a run of digits and raises \<open>ValueError\<close> on every other piece,
  which then stays a string. Since Python 3.11 (and the security releases of 3.7 to 3.10)
  \<open>int\<close> also raises \<open>ValueError\<close> on more than 4300 digits, the default of
  \<open>sys.int_info.default_max_str_digits\<close>: such a run stays a string too.
\<close>

definition to_component :: "string \<Rightarrow> component" where
  "to_component x =
     (if class_of (hd x) = Digit \<and> length x \<le> 4300 then Num (int_of_digits x) else Str x)"

definition parse :: "string \<Rightarrow> component list" where
  "parse vstring = map to_component (filter (\<lambda>x. x \<noteq> ''.'') (runs vstring))"

text \<open>
  An instance built from the empty string has no \<open>version\<close> attribute (\<open>None\<close> here):
  comparing it raises \<open>AttributeError\<close>.
\<close>

definition LooseVersion :: "string \<Rightarrow> component list option" where
  "LooseVersion vstring = (if vstring = [] then None else Some (parse vstring))"

text \<open>
  Python compares strings by code point and lists lexicographically: the first position
  where the elements differ decides, and a proper prefix is smaller. \<open>1 == 'a'\<close> is
  false, \<open>1 < 'a'\<close> raises \<open>TypeError\<close>.
\<close>

fun str_lt :: "string \<Rightarrow> string \<Rightarrow> bool" where
  "str_lt [] [] = False"
| "str_lt [] (y # ys) = True"
| "str_lt (x # xs) [] = False"
| "str_lt (x # xs) (y # ys) =
     (if x = y then str_lt xs ys else (of_char x :: nat) < of_char y)"

fun component_lt :: "component \<Rightarrow> component \<Rightarrow> py_error + bool" where
  "component_lt (Num a) (Num b) = Inr (a < b)"
| "component_lt (Str a) (Str b) = Inr (str_lt a b)"
| "component_lt (Num a) (Str b) = Inl TypeError"
| "component_lt (Str a) (Num b) = Inl TypeError"

fun version_lt :: "component list \<Rightarrow> component list \<Rightarrow> py_error + bool" where
  "version_lt [] [] = Inr False"
| "version_lt [] (y # ys) = Inr True"
| "version_lt (x # xs) [] = Inr False"
| "version_lt (x # xs) (y # ys) =
     (if x = y then version_lt xs ys else component_lt x y)"

text \<open>\<open>loose_lt a b\<close> is \<open>a < b\<close> on two instances, that is \<open>a._cmp(b) < 0\<close>.\<close>

definition loose_lt ::
  "component list option \<Rightarrow> component list option \<Rightarrow> py_error + bool" where
  "loose_lt a b =
     (case a of
        None \<Rightarrow> Inl AttributeError
      | Some va \<Rightarrow>
          (case b of
             None \<Rightarrow> Inl AttributeError
           | Some vb \<Rightarrow> version_lt va vb))"

section \<open>sorted(..., key=..., reverse=True)\<close>

text \<open>
  Python's \<open>sorted\<close> computes every key first, compares keys with \<open><\<close> only, is stable
  also with \<open>reverse=True\<close> (elements with equal keys keep their order), and lets an
  exception of a comparison escape. The model is a stable insertion sort into descending
  order. Python fixes the sorted result, not which pairs are compared; on a list of two
  elements the one comparison is the same (the first key against the second).
\<close>

fun insert_desc ::
  "('k \<Rightarrow> 'k \<Rightarrow> py_error + bool) \<Rightarrow> 'k \<times> 'a \<Rightarrow> ('k \<times> 'a) list \<Rightarrow> py_error + ('k \<times> 'a) list"
where
  "insert_desc lt x [] = Inr [x]"
| "insert_desc lt x (y # ys) =
     (case lt (fst x) (fst y) of
        Inl e \<Rightarrow> Inl e
      | Inr b \<Rightarrow>
          (if b then
             (case insert_desc lt x ys of
                Inl e \<Rightarrow> Inl e
              | Inr zs \<Rightarrow> Inr (y # zs))
           else Inr (x # y # ys)))"

fun sort_desc ::
  "('k \<Rightarrow> 'k \<Rightarrow> py_error + bool) \<Rightarrow> ('k \<times> 'a) list \<Rightarrow> py_error + ('k \<times> 'a) list"
where
  "sort_desc lt [] = Inr []"
| "sort_desc lt (x # xs) =
     (case sort_desc lt xs of
        Inl e \<Rightarrow> Inl e
      | Inr ys \<Rightarrow> insert_desc lt x ys)"

definition sorted_reverse ::
  "('k \<Rightarrow> 'k \<Rightarrow> py_error + bool) \<Rightarrow> ('a \<Rightarrow> 'k) \<Rightarrow> 'a list \<Rightarrow> py_error + 'a list" where
  "sorted_reverse lt key xs =
     (case sort_desc lt (map (\<lambda>x. (key x, x)) xs) of
        Inl e \<Rightarrow> Inl e
      | Inr ys \<Rightarrow> Inr (map snd ys))"

section \<open>Version resolver\<close>

text \<open>
  \<^verbatim>\<open>
  def _get_latest_tag(self, repo_url):
      g = Git()
      tags = sorted(g.ls_remote(repo_url, tags=True).split('\n'),
                    key=lambda t: LooseVersion(t.split('/')[-1]),
                    reverse=True)
      return tags[0].split('\t')[1].split('/')[-1] if tags else None
  \<close>
  \<open>latest_of_listing\<close> is the method after the call of \<open>ls_remote\<close>, on the text that call
  returned. \<open>[1]\<close> on a list of one element raises \<open>IndexError\<close>.
\<close>

definition latest_of_listing :: "string \<Rightarrow> py_error + string option" where
  "latest_of_listing listing =
     (case sorted_reverse loose_lt (\<lambda>t. LooseVersion (last (py_split CHR ''/'' t)))
             (py_split CHR 0x0A listing) of
        Inl e \<Rightarrow> Inl e
      | Inr tags \<Rightarrow>
          (if tags \<noteq> [] then
             (case py_split CHR 0x09 (hd tags) of
                f0 # f1 # fs \<Rightarrow> Inr (Some (last (py_split CHR ''/'' f1)))
              | _ \<Rightarrow> Inl IndexError)
           else Inr None))"

text \<open>
  The tags of a local repository, as \<open>_checkout_version\<close> orders them:
  \<^verbatim>\<open>
  tags = sorted(repo.tags, key=lambda t: LooseVersion(t.name), reverse=True)
  \<close>
\<close>

definition sorted_tags :: "string list \<Rightarrow> py_error + string list" where
  "sorted_tags names = sorted_reverse loose_lt LooseVersion names"

text \<open>
  What \<open>git ls-remote --tags\<close> prints, as GitPython returns it (the final newline
  stripped): one line per ref, the object id, a tab and the ref's full name. A repository
  with no tag prints nothing. This is the collaborator's format, not code of the program;
  it is used to state claims about tag sets.
\<close>

definition ref_line :: "string \<times> string \<Rightarrow> string" where
  "ref_line r = fst r @ [CHR 0x09] @ ''refs/tags/'' @ snd r"

fun join_lines :: "string list \<Rightarrow> string" where
  "join_lines [] = []"
| "join_lines [l] = l"
| "join_lines (l # ls) = l @ [CHR 0x0A] @ join_lines ls"

definition ls_remote_output :: "(string \<times> string) list \<Rightarrow> string" where
  "ls_remote_output refs = join_lines (map ref_line refs)"

section \<open>The Gitstaller object and its collaborators\<close>

text \<open>
  A record of \<open>installed.json\<close>, as \<open>install\<close> writes it:
  \<^verbatim>\<open>{"url": repo_url, "source": source, "manual": manual}\<close>.
  The program reads \<open>url\<close> with \<open>[...]\<close> and the other two keys with \<open>.get\<close> and a
  default, so these two may be absent.
\<close>

record package =
  pkg_url :: string
  pkg_source :: "string option"
  pkg_manual :: "bool option"

text \<open>
  A checkout on disk, as far as the program looks at it: the names of the files at its top
  (\<open>Makefile\<close>, \<open>setup.py\<close>) and the names of the local tags (\<open>repo.tags\<close>).
\<close>

record workspace =
  files :: "string list"
  tag_names :: "string list"

text \<open>
  The collaborators (git through GitPython, \<open>shutil.rmtree\<close>, \<open>subprocess.run\<close> with
  \<open>check=True\<close>) are parameters: each answers a call with its result or with the
  exception it raises. \<open>git_clone_from url branch\<close> is \<open>Repo.clone_from(url, path)\<close> or
  \<open>Repo.clone_from(url, path, branch=b)\<close>.
\<close>

record env =
  git_ls_remote :: "string \<Rightarrow> py_error + string"
  git_clone_from :: "string \<Rightarrow> string option \<Rightarrow> py_error + workspace"
  git_checkout :: "workspace \<Rightarrow> string \<Rightarrow> py_error + workspace"
  git_fetch_tags :: "workspace \<Rightarrow> py_error + workspace"
  git_pull :: "workspace \<Rightarrow> py_error + workspace"
  shutil_rmtree :: "string \<Rightarrow> py_error option"
  subprocess_run :: "string list \<Rightarrow> py_error option"

text \<open>What the program prints, and the calls it makes, in order.\<close>

datatype message =
    AlreadyInstalled string
  | Installing string
  | NoReleasesFound
  | BuildCompleted
  | BuildFailed
  | Installed string
  | InstallationError py_error
  | NotFound string
  | Updating string
  | Updated string
  | UpdateError py_error

datatype event =
    Print message
  | LsRemote string
  | CloneFrom string string "string option"
  | Checkout string string
  | FetchTags string
  | Pull string
  | Rmtree string
  | Run "string list"
  | SaveMetadata

text \<open>
  The state: the object's \<open>package_dir\<close> and \<open>metadata\<close> (the dictionary in memory), the
  content of \<open>installed.json\<close>, the directories under \<open>package_dir\<close> by path, and the
  trace of prints and collaborator calls.
\<close>

record state =
  package_dir :: string
  metadata :: "string \<rightharpoonup> package"
  metadata_file :: "string \<rightharpoonup> package"
  fs :: "string \<rightharpoonup> workspace"
  trace :: "event list"

definition emit :: "event \<Rightarrow> state \<Rightarrow> state" where
  "emit e st = st\<lparr>trace := trace st @ [e]\<rparr>"

text \<open>\<open>os.path.join\<close> of two parts, and the two uses of \<open>os.path.exists\<close>.\<close>

definition path_join :: "string \<Rightarrow> string \<Rightarrow> string" where
  "path_join a b =
     (if b \<noteq> [] \<and> hd b = CHR ''/'' then b
      else if a = [] \<or> last a = CHR ''/'' then a @ b
      else a @ ''/'' @ b)"

definition path_exists :: "state \<Rightarrow> string \<Rightarrow> bool" where
  "path_exists st path = (fs st path \<noteq> None)"

definition file_exists :: "state \<Rightarrow> string \<Rightarrow> string \<Rightarrow> bool" where
  "file_exists st dir name =
     (case fs st dir of
        None \<Rightarrow> False
      | Some w \<Rightarrow> name \<in> set (files w))"

text \<open>
  A method returns the exception that left it uncaught (\<open>None\<close> when it returned) and the
  state it left. \<open>and_then\<close> runs the next statement unless an exception is on its way.
\<close>

definition and_then ::
  "py_error option \<times> state \<Rightarrow> (state \<Rightarrow> py_error option \<times> state) \<Rightarrow> py_error option \<times> state"
where
  "and_then r f =
     (case r of
        (None, st) \<Rightarrow> f st
      | (Some e, st) \<Rightarrow> (Some e, st))"

text \<open>
  \<^verbatim>\<open>
  def _save_metadata(self):
      with open(self.metadata_file, 'w') as f:
          json.dump(self.metadata, f, indent=2)
  \<close>
\<close>

definition save_metadata :: "state \<Rightarrow> state" where
  "save_metadata st = emit SaveMetadata (st\<lparr>metadata_file := metadata st\<rparr>)"

definition get_latest_tag :: "env \<Rightarrow> string \<Rightarrow> state \<Rightarrow> (py_error + string option) \<times> state" where
  "get_latest_tag env repo_url st =
     (case git_ls_remote env repo_url of
        Inl e \<Rightarrow> (Inl e, emit (LsRemote repo_url) st)
      | Inr listing \<Rightarrow> (latest_of_listing listing, emit (LsRemote repo_url) st))"

text \<open>The calls on a \<open>Repo\<close>: the workspace at \<open>path\<close> is replaced by what git leaves.\<close>

definition repo_checkout :: "env \<Rightarrow> string \<Rightarrow> workspace \<Rightarrow> string \<Rightarrow> state \<Rightarrow> py_error option \<times> state" where
  "repo_checkout env path w ref st =
     (case git_checkout env w ref of
        Inl e \<Rightarrow> (Some e, emit (Checkout path ref) st)
      | Inr w' \<Rightarrow> (None, emit (Checkout path ref) (st\<lparr>fs := (fs st)(path \<mapsto> w')\<rparr>)))"

definition clone_from ::
  "env \<Rightarrow> string \<Rightarrow> string \<Rightarrow> string option \<Rightarrow> state \<Rightarrow> (py_error + workspace) \<times> state" where
  "clone_from env repo_url path branch st =
     (case git_clone_from env repo_url branch of
        Inl e \<Rightarrow> (Inl e, emit (CloneFrom repo_url path branch) st)
      | Inr w \<Rightarrow> (Inr w, emit (CloneFrom repo_url path branch) (st\<lparr>fs := (fs st)(path \<mapsto> w)\<rparr>)))"

text \<open>
  \<^verbatim>\<open>
  def _checkout_version(self, repo, source_spec):
      if source_spec == 'main':
          repo.git.checkout('main')
      elif source_spec == 'latest-release':
          tags = sorted(repo.tags, key=lambda t: LooseVersion(t.name), reverse=True)
          if tags:
              repo.git.checkout(tags[0])
          else:
              print("No releases found, using main branch")
      else:  # specific version
          repo.git.checkout(source_spec)
  \<close>
\<close>

definition checkout_version ::
  "env \<Rightarrow> string \<Rightarrow> workspace \<Rightarrow> string \<Rightarrow> state \<Rightarrow> py_error option \<times> state" where
  "checkout_version env path repo source_spec st =
     (if source_spec = ''main'' then repo_checkout env path repo ''main'' st
      else if source_spec = ''latest-release'' then
        (case sorted_tags (tag_names repo) of
           Inl e \<Rightarrow> (Some e, st)
         | Inr tags \<Rightarrow>
             (if tags \<noteq> [] then repo_checkout env path repo (hd tags) st
              else (None, emit (Print NoReleasesFound) st)))
      else repo_checkout env path repo source_spec st)"

text \<open>
  \<^verbatim>\<open>
  def _build_package(self, install_path):
      try:
          if os.path.exists(os.path.join(install_path, 'Makefile')):
              subprocess.run(['make', '-C', install_path], check=True)
              subprocess.run(['sudo', 'make', '-C', install_path, 'install'], check=True)
          elif os.path.exists(os.path.join(install_path, 'setup.py')):
              subprocess.run(['sudo', 'python3', '-m', 'pip', 'install', install_path],
                             check=True)
          print("Build and system installation completed successfully")
      except subprocess.CalledProcessError as e:
          print(f"Build failed: {str(e)}")
  \<close>
\<close>

definition run_cmd :: "env \<Rightarrow> string list \<Rightarrow> state \<Rightarrow> py_error option \<times> state" where
  "run_cmd env cmd st = (subprocess_run env cmd, emit (Run cmd) st)"

definition build_steps :: "env \<Rightarrow> string \<Rightarrow> state \<Rightarrow> py_error option \<times> state" where
  "build_steps env install_path st =
     (if file_exists st install_path ''Makefile'' then
        and_then (run_cmd env [''make'', ''-C'', install_path] st)
          (run_cmd env [''sudo'', ''make'', ''-C'', install_path, ''install''])
      else if file_exists st install_path ''setup.py'' then
        run_cmd env [''sudo'', ''python3'', ''-m'', ''pip'', ''install'', install_path] st
      else (None, st))"

definition build_package :: "env \<Rightarrow> string \<Rightarrow> state \<Rightarrow> py_error option \<times> state" where
  "build_package env install_path st =
     (case build_steps env install_path st of
        (None, st') \<Rightarrow> (None, emit (Print BuildCompleted) st')
      | (Some e, st') \<Rightarrow>
          (if e = CalledProcessError then (None, emit (Print BuildFailed) st')
           else (Some e, st')))"

text \<open>
  \<^verbatim>\<open>
  def install(self, repo_url, source='main', manual=False, reinstall=False):
      package_name = self._extract_name(repo_url)
      install_path = os.path.join(self.package_dir, package_name)
      if os.path.exists(install_path) and not reinstall:
          print(f"Package {package_name} is already installed")
          return
      try:
          if reinstall and os.path.exists(install_path):
              rmtree(install_path)
          print(f"Installing {package_name}...")
          if source == 'latest-release':
              latest_tag = self._get_latest_tag(repo_url)
              if latest_tag:
                  Repo.clone_from(repo_url, install_path, branch=latest_tag)
              else:
                  Repo.clone_from(repo_url, install_path)
          else:
              repo = Repo.clone_from(repo_url, install_path)
              self._checkout_version(repo, source)
          if not manual:
              self._build_package(install_path)
          self.metadata[package_name] = {"url": repo_url, "source": source, "manual": manual}
          self._save_metadata()
          print(f"{package_name} successfully installed")
      except (GitCommandError, PermissionError) as e:
          print(f"Installation error: {str(e)}")
  \<close>
  \<open>if latest_tag\<close> is false for \<open>None\<close> and for the empty string.
\<close>

definition truthy :: "string option \<Rightarrow> bool" where
  "truthy latest_tag = (latest_tag \<noteq> None \<and> latest_tag \<noteq> Some [])"

definition remove_tree :: "env \<Rightarrow> string \<Rightarrow> state \<Rightarrow> py_error option \<times> state" where
  "remove_tree env path st =
     (case shutil_rmtree env path of
        Some e \<Rightarrow> (Some e, emit (Rmtree path) st)
      | None \<Rightarrow> (None, emit (Rmtree path) (st\<lparr>fs := (fs st)(path := None)\<rparr>)))"

definition install_source ::
  "env \<Rightarrow> string \<Rightarrow> string \<Rightarrow> string \<Rightarrow> state \<Rightarrow> py_error option \<times> state" where
  "install_source env repo_url source install_path st =
     (if source = ''latest-release'' then
        (case get_latest_tag env repo_url st of
           (Inl e, st1) \<Rightarrow> (Some e, st1)
         | (Inr latest_tag, st1) \<Rightarrow>
             (case (if truthy latest_tag
                    then clone_from env repo_url install_path latest_tag st1
                    else clone_from env repo_url install_path None st1) of
                (Inl e, st2) \<Rightarrow> (Some e, st2)
              | (Inr repo, st2) \<Rightarrow> (None, st2)))
      else
        (case clone_from env repo_url install_path None st of
           (Inl e, st1) \<Rightarrow> (Some e, st1)
         | (Inr repo, st1) \<Rightarrow> checkout_version env install_path repo source st1))"

definition install_try ::
  "env \<Rightarrow> string \<Rightarrow> string \<Rightarrow> bool \<Rightarrow> bool \<Rightarrow> string \<Rightarrow> string \<Rightarrow> state \<Rightarrow> py_error option \<times> state"
where
  "install_try env repo_url source manual reinstall package_name install_path st =
     and_then (if reinstall \<and> path_exists st install_path then remove_tree env install_path st
               else (None, st))
       (\<lambda>st1. and_then (install_source env repo_url source install_path
                           (emit (Print (Installing package_name)) st1))
          (\<lambda>st2. and_then (if \<not> manual then build_package env install_path st2 else (None, st2))
             (\<lambda>st3. (None,
                emit (Print (Installed package_name))
                  (save_metadata
                     (st3\<lparr>metadata := (metadata st3)(package_name \<mapsto>
                        \<lparr>pkg_url = repo_url, pkg_source = Some source,
                         pkg_manual = Some manual\<rparr>)\<rparr>))))))"

definition install ::
  "env \<Rightarrow> string \<Rightarrow> string \<Rightarrow> bool \<Rightarrow> bool \<Rightarrow> state \<Rightarrow> py_error option \<times> state" where
  "install env repo_url source manual reinstall st =
     (let package_name = extract_name repo_url;
          install_path = path_join (package_dir st) package_name
      in if path_exists st install_path \<and> \<not> reinstall
         then (None, emit (Print (AlreadyInstalled package_name)) st)
         else
           (case install_try env repo_url source manual reinstall package_name install_path st of
              (None, st') \<Rightarrow> (None, st')
            | (Some e, st') \<Rightarrow>
                (if e = GitCommandError \<or> e = PermissionError
                 then (None, emit (Print (InstallationError e)) st')
                 else (Some e, st'))))"

text \<open>
  \<^verbatim>\<open>
  def update(self, package_name, manual=False):
      if package_name not in self.metadata:
          print(f"Package {package_name} not found")
          return
      package_path = os.path.join(self.package_dir, package_name)
      try:
          print(f"Updating {package_name}...")
          repo = Repo(package_path)
          source_spec = self.metadata[package_name].get('source', 'main')
          if source_spec == 'latest-release':
              latest_tag = self._get_latest_tag(self.metadata[package_name]['url'])
              if latest_tag:
                  repo.git.fetch('--tags')
                  repo.git.checkout(latest_tag)
          else:
              repo.remotes.origin.pull()
          if not manual and not self.metadata[package_name].get('manual', False):
              self._build_package(package_path)
          print(f"{package_name} successfully updated")
      except GitCommandError as e:
          print(f"Update error: {str(e)}")
  \<close>
  \<open>get_source\<close> and \<open>get_manual\<close> are \<open>.get('source', 'main')\<close> and \<open>.get('manual', False)\<close>
  on a record. Line 136 of the file reads \<open>.get('manual', False')\<close>, with a quote after \<open>False\<close> that
  Python does not parse; it is read here as \<open>.get('manual', False)\<close>. \<open>Repo(path)\<close>
  raises \<open>NoSuchPathError\<close> when there is no directory at \<open>path\<close>.
\<close>

definition get_source :: "package \<Rightarrow> string" where
  "get_source record = (case pkg_source record of None \<Rightarrow> ''main'' | Some s \<Rightarrow> s)"

definition get_manual :: "package \<Rightarrow> bool" where
  "get_manual record = (case pkg_manual record of None \<Rightarrow> False | Some m \<Rightarrow> m)"

definition repo_fetch_tags :: "env \<Rightarrow> string \<Rightarrow> workspace \<Rightarrow> state \<Rightarrow> (py_error + workspace) \<times> state" where
  "repo_fetch_tags env path w st =
     (case git_fetch_tags env w of
        Inl e \<Rightarrow> (Inl e, emit (FetchTags path) st)
      | Inr w' \<Rightarrow> (Inr w', emit (FetchTags path) (st\<lparr>fs := (fs st)(path \<mapsto> w')\<rparr>)))"

definition repo_pull :: "env \<Rightarrow> string \<Rightarrow> workspace \<Rightarrow> state \<Rightarrow> py_error option \<times> state" where
  "repo_pull env path w st =
     (case git_pull env w of
        Inl e \<Rightarrow> (Some e, emit (Pull path) st)
      | Inr w' \<Rightarrow> (None, emit (Pull path) (st\<lparr>fs := (fs st)(path \<mapsto> w')\<rparr>)))"

definition update_source ::
  "env \<Rightarrow> package \<Rightarrow> string \<Rightarrow> workspace \<Rightarrow> state \<Rightarrow> py_error option \<times> state" where
  "update_source env record package_path repo st =
     (let source_spec = get_source record
      in if source_spec = ''latest-release'' then
           (case get_latest_tag env (pkg_url record) st of
              (Inl e, st1) \<Rightarrow> (Some e, st1)
            | (Inr latest_tag, st1) \<Rightarrow>
                (case latest_tag of
                   None \<Rightarrow> (None, st1)
                 | Some tag \<Rightarrow>
                     (if truthy latest_tag then
                        (case repo_fetch_tags env package_path repo st1 of
                           (Inl e, st2) \<Rightarrow> (Some e, st2)
                         | (Inr repo', st2) \<Rightarrow> repo_checkout env package_path repo' tag st2)
                      else (None, st1))))
         else repo_pull env package_path repo st)"

definition update_try ::
  "env \<Rightarrow> package \<Rightarrow> string \<Rightarrow> bool \<Rightarrow> string \<Rightarrow> state \<Rightarrow> py_error option \<times> state" where
  "update_try env record package_name manual package_path st =
     (let st0 = emit (Print (Updating package_name)) st
      in case fs st0 package_path of
           None \<Rightarrow> (Some NoSuchPathError, st0)
         | Some repo \<Rightarrow>
             and_then (update_source env record package_path repo st0)
               (\<lambda>st1. and_then
                  (if \<not> manual \<and> \<not> get_manual record
                   then build_package env package_path st1 else (None, st1))
                  (\<lambda>st2. (None, emit (Print (Updated package_name)) st2))))"

definition update :: "env \<Rightarrow> string \<Rightarrow> bool \<Rightarrow> state \<Rightarrow> py_error option \<times> state" where
  "update env package_name manual st =
     (case metadata st package_name of
        None \<Rightarrow> (None, emit (Print (NotFound package_name)) st)
      | Some record \<Rightarrow>
          (case update_try env record package_name manual
                  (path_join (package_dir st) package_name) st of
             (None, st') \<Rightarrow> (None, st')
           | (Some e, st') \<Rightarrow>
               (if e = GitCommandError then (None, emit (Print (UpdateError e)) st')
                else (Some e, st'))))"

text \<open>
  \<^verbatim>\<open>
  def reinstall(self, package_name, manual=False):
      if package_name not in self.metadata:
          print(f"Package {package_name} not found")
          return
      metadata = self.metadata[package_name]
      self.install(metadata['url'],
                   source=metadata.get('source', 'main'),
                   manual=manual or metadata.get('manual', False),
                   reinstall=True)
  \<close>
\<close>

definition reinstall :: "env \<Rightarrow> string \<Rightarrow> bool \<Rightarrow> state \<Rightarrow> py_error option \<times> state" where
  "reinstall env package_name manual st =
     (case metadata st package_name of
        None \<Rightarrow> (None, emit (Print (NotFound package_name)) st)
      | Some record \<Rightarrow>
          install env (pkg_url record) (get_source record) (manual \<or> get_manual record)
            True st)"

section \<open>Effects of the steps\<close>

text \<open>
  The events a call added to the trace, and the classes of events: those of the
  version-control steps, those of \<open>_build_package\<close>, and the two that only a successful
  \<open>install\<close> produces (the store is saved, success is printed).
\<close>

definition new_events :: "state \<Rightarrow> state \<Rightarrow> event list" where
  "new_events st st' = drop (length (trace st)) (trace st')"

fun vc_event :: "event \<Rightarrow> bool" where
  "vc_event (LsRemote u) = True"
| "vc_event (CloneFrom u p b) = True"
| "vc_event (Checkout p r) = True"
| "vc_event (FetchTags p) = True"
| "vc_event (Pull p) = True"
| "vc_event (Print NoReleasesFound) = True"
| "vc_event e = False"

fun build_event :: "event \<Rightarrow> bool" where
  "build_event (Run cmd) = True"
| "build_event (Print BuildCompleted) = True"
| "build_event (Print BuildFailed) = True"
| "build_event e = False"

fun final_event :: "event \<Rightarrow> bool" where
  "final_event SaveMetadata = True"
| "final_event (Print (Installed n)) = True"
| "final_event e = False"

fun is_run :: "event \<Rightarrow> bool" where
  "is_run (Run cmd) = True"
| "is_run e = False"

text \<open>
  \<open>only_emits P st st'\<close>: from \<open>st\<close> to \<open>st'\<close> the trace grew by events that satisfy \<open>P\<close>, and
  the store (in memory and on disk) and \<open>package_dir\<close> are the same.
\<close>

definition only_emits :: "(event \<Rightarrow> bool) \<Rightarrow> state \<Rightarrow> state \<Rightarrow> bool" where
  "only_emits P st st' =
     ((\<exists>evs. trace st' = trace st @ evs \<and> list_all P evs)
      \<and> metadata st' = metadata st
      \<and> metadata_file st' = metadata_file st
      \<and> package_dir st' = package_dir st)"

text \<open>\<open>reports st st' msg\<close>: the last thing the call from \<open>st\<close> to \<open>st'\<close> did is print \<open>msg\<close>.\<close>

definition reports :: "state \<Rightarrow> state \<Rightarrow> message \<Rightarrow> bool" where
  "reports st st' msg =
     (new_events st st' \<noteq> [] \<and> last (new_events st st') = Print msg)"

section \<open>Reinstall as the specification words it\<close>

text \<open>
  Section 4.3 of the specification: ``Reinstall(name, manual): 1. If absent, report not
  found. 2. Otherwise invoke Install with the record's stored locator and policy, with
  manual = (caller's manual flag OR the record's stored manual flag), and reinstall=true
  forced.'' This definition follows those words on the stored fields themselves (a record
  without a stored policy tracks \<open>main\<close>, the default of section 3); \<open>reinstall\<close> above
  follows the code.
\<close>

definition reinstall_spec :: "env \<Rightarrow> string \<Rightarrow> bool \<Rightarrow> state \<Rightarrow> py_error option \<times> state" where
  "reinstall_spec env name caller_manual st =
     (case metadata st name of
        None \<Rightarrow> (None, emit (Print (NotFound name)) st)
      | Some stored \<Rightarrow>
          install env (pkg_url stored)
            (case pkg_source stored of Some policy \<Rightarrow> policy | None \<Rightarrow> ''main'')
            (caller_manual \<or> pkg_manual stored = Some True)
            True st)"

section \<open>Concrete collaborators and states\<close>

text \<open>
  A repository with three tags whose checkout holds a \<open>Makefile\<close> and a \<open>setup.py\<close>,
  collaborators that all succeed, an empty installation, and one where \<open>foo\<close> is
  installed. The theorems below are instantiated on these.
\<close>

definition demo_url :: string where
  "demo_url = ''https://example.com/user/foo.git''"

definition demo_refs :: "(string \<times> string) list" where
  "demo_refs = [(''1111111'', ''v1.2.0''), (''2222222'', ''v1.9.0''), (''3333333'', ''v1.10.0'')]"

definition demo_listing :: string where
  "demo_listing = ls_remote_output demo_refs"

definition demo_workspace :: workspace where
  "demo_workspace =
     \<lparr>files = [''Makefile'', ''setup.py'', ''README.md''],
      tag_names = [''v1.2.0'', ''v1.9.0'', ''v1.10.0'']\<rparr>"

definition demo_env :: env where
  "demo_env =
     \<lparr>git_ls_remote = (\<lambda>u. Inr demo_listing),
      git_clone_from = (\<lambda>u b. Inr demo_workspace),
      git_checkout = (\<lambda>w r. Inr w),
      git_fetch_tags = (\<lambda>w. Inr w),
      git_pull = (\<lambda>w. Inr w),
      shutil_rmtree = (\<lambda>p. None),
      subprocess_run = (\<lambda>cmd. None)\<rparr>"

definition demo_empty :: state where
  "demo_empty =
     \<lparr>package_dir = ''/pkgs'',
      metadata = Map.empty, metadata_file = Map.empty, fs = Map.empty, trace = []\<rparr>"

definition demo_record :: "bool \<Rightarrow> package" where
  "demo_record m = \<lparr>pkg_url = demo_url, pkg_source = Some ''main'', pkg_manual = Some m\<rparr>"

definition demo_installed :: "bool \<Rightarrow> state" where
  "demo_installed m =
     \<lparr>package_dir = ''/pkgs'',
      metadata = [''foo'' \<mapsto> demo_record m],
      metadata_file = [''foo'' \<mapsto> demo_record m],
      fs = [''/pkgs/foo'' \<mapsto> demo_workspace],
      trace = []\<rparr>"

text \<open>Collaborators that fail: every clone is refused; every build command exits non-zero.\<close>

definition demo_env_clone_fails :: env where
  "demo_env_clone_fails = demo_env\<lparr>git_clone_from := (\<lambda>u b. Inl GitCommandError)\<rparr>"

definition demo_env_build_fails :: env where
  "demo_env_build_fails = demo_env\<lparr>subprocess_run := (\<lambda>cmd. Some CalledProcessError)\<rparr>"

definition demo_env_checkout_fails :: env where
  "demo_env_checkout_fails = demo_env\<lparr>git_checkout := (\<lambda>w r. Inl GitCommandError)\<rparr>"

text \<open>An installation of \<open>foo\<close> pinned to the version \<open>v1.2.0\<close> with \<open>manual\<close> set.\<close>

definition demo_pinned_record :: package where
  "demo_pinned_record =
     \<lparr>pkg_url = demo_url, pkg_source = Some ''v1.2.0'', pkg_manual = Some True\<rparr>"

definition demo_pinned :: state where
  "demo_pinned =
     \<lparr>package_dir = ''/pkgs'',
      metadata = [''foo'' \<mapsto> demo_pinned_record],
      metadata_file = [''foo'' \<mapsto> demo_pinned_record],
      fs = [''/pkgs/foo'' \<mapsto> demo_workspace],
      trace = []\<rparr>"

text \<open>
  Remotes: one without tags; one with the tags \<open>1.0\<close> and \<open>v1.0\<close>; one with the tag
  \<open>release/1.0\<close>.
\<close>

definition demo_env_no_tags :: env where
  "demo_env_no_tags = demo_env\<lparr>git_ls_remote := (\<lambda>u. Inr (ls_remote_output []))\<rparr>"

definition demo_env_mixed_tags :: env where
  "demo_env_mixed_tags = demo_env\<lparr>git_ls_remote :=
     (\<lambda>u. Inr (ls_remote_output [(''1111111'', ''1.0''), (''2222222'', ''v1.0'')]))\<rparr>"

definition demo_env_slash_tag :: env where
  "demo_env_slash_tag = demo_env\<lparr>git_ls_remote :=
     (\<lambda>u. Inr (ls_remote_output [(''1111111'', ''release/1.0'')]))\<rparr>"


subsection \<open>Frame lemmas\<close>

lemma only_emits_refl: "only_emits P st st"
  by (simp add: only_emits_def)

lemma only_emits_trans:
  "only_emits P st st1 \<Longrightarrow> only_emits P st1 st2 \<Longrightarrow> only_emits P st st2"
  by (auto simp: only_emits_def)

lemma only_emits_mono:
  "only_emits P st st' \<Longrightarrow> (\<And>e. P e \<Longrightarrow> Q e) \<Longrightarrow> only_emits Q st st'"
  unfolding only_emits_def list_all_iff by blast

lemma only_emits_emit: "P e \<Longrightarrow> only_emits P st (emit e st)"
  by (simp add: only_emits_def emit_def)

lemma only_emits_emit_fs: "P e \<Longrightarrow> only_emits P st (emit e (st\<lparr>fs := f\<rparr>))"
  by (simp add: only_emits_def emit_def)

lemma only_emits_new_events:
  "only_emits P st st' \<Longrightarrow> trace st' = trace st @ new_events st st' \<and> list_all P (new_events st st')"
  by (auto simp: only_emits_def new_events_def)

lemma only_emits_store:
  "only_emits P st st' \<Longrightarrow> metadata st' = metadata st \<and> metadata_file st' = metadata_file st"
  by (simp add: only_emits_def)

lemma and_then_emits:
  assumes "and_then (a, s) f = (res, st')"
    and "only_emits P st s"
    and "a = None \<Longrightarrow> only_emits P s (snd (f s))"
  shows "only_emits P st st'"
proof (cases a)
  case None
  with assms(1) have "f s = (res, st')" by (simp add: and_then_def)
  then have "snd (f s) = st'" by simp
  with assms(3) None have "only_emits P s st'" by simp
  with assms(2) show ?thesis by (rule only_emits_trans)
next
  case (Some e)
  with assms(1) have "st' = s" by (simp add: and_then_def)
  with assms(2) show ?thesis by simp
qed

lemma get_latest_tag_emits:
  "get_latest_tag env u st = (r, st') \<Longrightarrow> only_emits vc_event st st' \<and> fs st' = fs st"
  by (auto simp: get_latest_tag_def only_emits_def emit_def split: sum.splits)

lemma repo_checkout_emits:
  "repo_checkout env p w ref st = (r, st') \<Longrightarrow> only_emits vc_event st st'"
  by (auto simp: repo_checkout_def only_emits_emit only_emits_emit_fs split: sum.splits)

lemma clone_from_emits:
  "clone_from env u p b st = (r, st') \<Longrightarrow> only_emits vc_event st st'"
  by (auto simp: clone_from_def only_emits_emit only_emits_emit_fs split: sum.splits)

lemma repo_fetch_tags_emits:
  "repo_fetch_tags env p w st = (r, st') \<Longrightarrow> only_emits vc_event st st'"
  by (auto simp: repo_fetch_tags_def only_emits_emit only_emits_emit_fs split: sum.splits)

lemma repo_pull_emits:
  "repo_pull env p w st = (r, st') \<Longrightarrow> only_emits vc_event st st'"
  by (auto simp: repo_pull_def only_emits_emit only_emits_emit_fs split: sum.splits)

lemma checkout_version_emits:
  "checkout_version env p w s st = (r, st') \<Longrightarrow> only_emits vc_event st st'"
  by (auto simp: checkout_version_def only_emits_emit only_emits_refl
      dest: repo_checkout_emits split: sum.splits if_splits)

lemma install_source_emits:
  assumes "install_source env u s p st = (r, st')"
  shows "only_emits vc_event st st'"
proof (cases "s = ''latest-release''")
  case True
  obtain t st1 where g: "get_latest_tag env u st = (t, st1)" by (cases "get_latest_tag env u st")
  then have e1: "only_emits vc_event st st1" by (simp add: get_latest_tag_emits)
  show ?thesis
  proof (cases t)
    case (Inl e)
    with assms True g have "st' = st1" by (simp add: install_source_def)
    with e1 show ?thesis by simp
  next
    case (Inr tag)
    obtain c st2 where c: "clone_from env u p (if truthy tag then tag else None) st1 = (c, st2)"
      by (cases "clone_from env u p (if truthy tag then tag else None) st1")
    then have e2: "only_emits vc_event st1 st2" by (rule clone_from_emits)
    from assms True g Inr c have "st' = st2"
      by (cases c) (auto simp: install_source_def split: if_splits)
    with e1 e2 show ?thesis by (auto intro: only_emits_trans)
  qed
next
  case False
  obtain c st1 where c: "clone_from env u p None st = (c, st1)"
    by (cases "clone_from env u p None st")
  then have e1: "only_emits vc_event st st1" by (rule clone_from_emits)
  show ?thesis
  proof (cases c)
    case (Inl e)
    with assms False c have "st' = st1" by (simp add: install_source_def)
    with e1 show ?thesis by simp
  next
    case (Inr w)
    with assms False c have "checkout_version env p w s st1 = (r, st')"
      by (simp add: install_source_def)
    then have "only_emits vc_event st1 st'" by (rule checkout_version_emits)
    with e1 show ?thesis by (auto intro: only_emits_trans)
  qed
qed

lemma run_cmd_emits:
  "run_cmd env cmd st = (r, st') \<Longrightarrow> only_emits build_event st st' \<and> fs st' = fs st"
  by (auto simp: run_cmd_def only_emits_def emit_def)

lemma build_steps_emits:
  "build_steps env p st = (r, st') \<Longrightarrow> only_emits build_event st st' \<and> fs st' = fs st"
  by (auto simp: build_steps_def and_then_def run_cmd_def only_emits_def emit_def
      split: if_splits option.splits)

lemma build_package_emits:
  "build_package env p st = (r, st') \<Longrightarrow> only_emits build_event st st' \<and> fs st' = fs st"
  by (auto simp: build_package_def emit_def only_emits_def
      dest!: build_steps_emits split: prod.splits option.splits if_splits)

lemma remove_tree_emits:
  "remove_tree env p st = (r, st') \<Longrightarrow> only_emits (\<lambda>e. e = Rmtree p) st st'"
  by (auto simp: remove_tree_def only_emits_emit only_emits_emit_fs split: option.splits)

lemma vc_not_build: "vc_event e \<Longrightarrow> \<not> build_event e"
  by (cases e rule: vc_event.cases) auto

lemma vc_not_final: "vc_event e \<Longrightarrow> \<not> final_event e"
  by (cases e rule: vc_event.cases) auto

lemma build_not_final: "build_event e \<Longrightarrow> \<not> final_event e"
  by (cases e rule: build_event.cases) auto

lemma new_events_append [simp]: "new_events st (st\<lparr>trace := trace st @ evs\<rparr>) = evs"
  by (simp add: new_events_def)

subsection \<open>Update\<close>

lemma update_source_emits:
  assumes "update_source env rec p w st = (r, st')"
  shows "only_emits vc_event st st'"
proof (cases "get_source rec = ''latest-release''")
  case True
  obtain t st1 where g: "get_latest_tag env (pkg_url rec) st = (t, st1)"
    by (cases "get_latest_tag env (pkg_url rec) st")
  then have e1: "only_emits vc_event st st1" by (simp add: get_latest_tag_emits)
  show ?thesis
  proof (cases "\<exists>tag. t = Inr (Some tag) \<and> truthy (Some tag)")
    case False
    with assms True g have "st' = st1"
      by (auto simp: update_source_def split: sum.splits option.splits if_splits)
    with e1 show ?thesis by simp
  next
    case yes: True
    then obtain tag where t: "t = Inr (Some tag)" "truthy (Some tag)" by blast
    obtain f st2 where f: "repo_fetch_tags env p w st1 = (f, st2)"
      by (cases "repo_fetch_tags env p w st1")
    then have e2: "only_emits vc_event st1 st2" by (rule repo_fetch_tags_emits)
    show ?thesis
    proof (cases f)
      case (Inl e)
      with assms True g t f have "st' = st2" by (simp add: update_source_def)
      with e1 e2 show ?thesis by (auto intro: only_emits_trans)
    next
      case (Inr w')
      with assms True g t f have "repo_checkout env p w' tag st2 = (r, st')"
        by (simp add: update_source_def)
      then have "only_emits vc_event st2 st'" by (rule repo_checkout_emits)
      with e1 e2 show ?thesis by (auto intro: only_emits_trans)
    qed
  qed
next
  case False
  with assms have "repo_pull env p w st = (r, st')" by (simp add: update_source_def)
  then show ?thesis by (rule repo_pull_emits)
qed

lemma update_try_emits:
  assumes u: "update_try env rec n m p st = (r, st')"
    and P1: "P (Print (Updating n))" and P2: "P (Print (Updated n))"
    and Pvc: "\<And>e. vc_event e \<Longrightarrow> P e"
    and Pb: "\<And>e. \<not> m \<Longrightarrow> \<not> get_manual rec \<Longrightarrow> build_event e \<Longrightarrow> P e"
  shows "only_emits P st st'"
proof -
  let ?st0 = "emit (Print (Updating n)) st"
  have e0: "only_emits P st ?st0" using P1 by (rule only_emits_emit)
  show ?thesis
  proof (cases "fs ?st0 p")
    case None
    with u have "st' = ?st0" by (simp add: update_try_def Let_def)
    with e0 show ?thesis by simp
  next
    case (Some w)
    obtain a st1 where s1: "update_source env rec p w ?st0 = (a, st1)"
      by (cases "update_source env rec p w ?st0")
    then have "only_emits vc_event ?st0 st1" by (rule update_source_emits)
    then have e1: "only_emits P ?st0 st1" using Pvc by (rule only_emits_mono)
    show ?thesis
    proof (cases a)
      case (Some e)
      with u \<open>fs ?st0 p = Some w\<close> s1 have "st' = st1"
        by (simp add: update_try_def Let_def and_then_def)
      with e0 e1 show ?thesis by (auto intro: only_emits_trans)
    next
      case None
      show ?thesis
      proof (cases "\<not> m \<and> \<not> get_manual rec")
        case True
        obtain b st2 where b: "build_package env p st1 = (b, st2)"
          by (cases "build_package env p st1")
        then have "only_emits build_event st1 st2" by (simp add: build_package_emits)
        then have e2: "only_emits P st1 st2" using Pb True by (auto intro: only_emits_mono)
        have "st' = st2 \<or> st' = emit (Print (Updated n)) st2"
          using u \<open>fs ?st0 p = Some w\<close> s1 None True b
          by (cases b) (auto simp: update_try_def Let_def and_then_def)
        moreover have "only_emits P st2 (emit (Print (Updated n)) st2)"
          using P2 by (rule only_emits_emit)
        ultimately have "only_emits P st2 st'" by (auto simp: only_emits_refl)
        with e0 e1 e2 show ?thesis by (blast intro: only_emits_trans)
      next
        case False
        with u \<open>fs ?st0 p = Some w\<close> s1 None have "st' = emit (Print (Updated n)) st1"
          by (auto simp: update_try_def Let_def and_then_def)
        moreover have "only_emits P st1 (emit (Print (Updated n)) st1)"
          using P2 by (rule only_emits_emit)
        ultimately show ?thesis using e0 e1 by (blast intro: only_emits_trans)
      qed
    qed
  qed
qed

lemma update_emits:
  assumes u: "update env n m st = (r, st')"
    and P0: "P (Print (NotFound n))" and P1: "P (Print (Updating n))" and P2: "P (Print (Updated n))"
    and P3: "P (Print (UpdateError GitCommandError))"
    and Pvc: "\<And>e. vc_event e \<Longrightarrow> P e"
    and Pb: "\<And>e rec. metadata st n = Some rec \<Longrightarrow> \<not> m \<Longrightarrow> \<not> get_manual rec \<Longrightarrow> build_event e \<Longrightarrow> P e"
  shows "only_emits P st st'"
proof (cases "metadata st n")
  case None
  with u have "st' = emit (Print (NotFound n)) st" by (simp add: update_def)
  with P0 show ?thesis by (simp add: only_emits_emit)
next
  case (Some rec)
  obtain a st1 where t: "update_try env rec n m (path_join (package_dir st) n) st = (a, st1)"
    by (cases "update_try env rec n m (path_join (package_dir st) n) st")
  from t P1 P2 Pvc Pb [OF Some] have e1: "only_emits P st st1"
    by (rule update_try_emits)
  have "st' = st1 \<or> st' = emit (Print (UpdateError GitCommandError)) st1"
    using u Some t by (cases a) (auto simp: update_def split: if_splits)
  moreover have "only_emits P st1 (emit (Print (UpdateError GitCommandError)) st1)"
    using P3 by (rule only_emits_emit)
  ultimately have "only_emits P st1 st'" by (auto simp: only_emits_refl)
  with e1 show ?thesis by (rule only_emits_trans)
qed

subsection \<open>Install\<close>

lemma install_source_keeps_path:
  "install_source env u s p st = (None, st') \<Longrightarrow> fs st' p \<noteq> None"
  by (auto simp: install_source_def get_latest_tag_def clone_from_def checkout_version_def
      repo_checkout_def emit_def split: sum.splits if_splits)

lemma install_try_emits:
  assumes t: "install_try env u s m re n p st = (r, st')"
    and P1: "P (Rmtree p)" and P2: "P (Print (Installing n))"
    and Pvc: "\<And>e. vc_event e \<Longrightarrow> P e"
    and Pb: "\<And>e. build_event e \<Longrightarrow> P e"
  shows "(r \<noteq> None \<and> only_emits P st st')
    \<or> (r = None \<and> (\<exists>st3. only_emits P st st3 \<and> fs st3 p \<noteq> None
          \<and> st' = emit (Print (Installed n))
                 (save_metadata (st3\<lparr>metadata := (metadata st3)(n \<mapsto>
                    \<lparr>pkg_url = u, pkg_source = Some s, pkg_manual = Some m\<rparr>)\<rparr>))))"
proof -
  obtain a st1 where prep:
    "(if re \<and> path_exists st p then remove_tree env p st else (None, st)) = (a, st1)"
    by (cases "if re \<and> path_exists st p then remove_tree env p st else (None, st)")
  have e1: "only_emits P st st1"
  proof (cases "re \<and> path_exists st p")
    case True
    with prep have "remove_tree env p st = (a, st1)" by simp
    then have "only_emits (\<lambda>e. e = Rmtree p) st st1" by (rule remove_tree_emits)
    then show ?thesis using P1 by (auto intro: only_emits_mono)
  next
    case False
    with prep show ?thesis by (simp add: only_emits_refl)
  qed
  show ?thesis
  proof (cases a)
    case (Some e)
    with t prep have "r = Some e" "st' = st1" by (simp_all add: install_try_def and_then_def)
    with e1 show ?thesis by simp
  next
    case None
    let ?st1' = "emit (Print (Installing n)) st1"
    have e1': "only_emits P st ?st1'"
      using e1 only_emits_emit [of P, OF P2] by (rule only_emits_trans)
    obtain b st2 where src: "install_source env u s p ?st1' = (b, st2)"
      by (cases "install_source env u s p ?st1'")
    then have "only_emits vc_event ?st1' st2" by (rule install_source_emits)
    then have "only_emits P ?st1' st2" using Pvc by (rule only_emits_mono)
    with e1' have e2: "only_emits P st st2" by (rule only_emits_trans)
    show ?thesis
    proof (cases b)
      case (Some e)
      with t prep None src have "r = Some e" "st' = st2"
        by (simp_all add: install_try_def and_then_def)
      with e2 show ?thesis by simp
    next
      case b_ok: None
      with src have f2: "fs st2 p \<noteq> None" by (simp add: install_source_keeps_path)
      obtain c st3 where bld:
        "(if \<not> m then build_package env p st2 else (None, st2)) = (c, st3)"
        by (cases "if \<not> m then build_package env p st2 else (None, st2)")
      have e3: "only_emits P st2 st3 \<and> fs st3 = fs st2"
      proof (cases m)
        case True
        with bld show ?thesis by (simp add: only_emits_refl)
      next
        case False
        with bld have "build_package env p st2 = (c, st3)" by simp
        then have "only_emits build_event st2 st3 \<and> fs st3 = fs st2"
          by (rule build_package_emits)
        then show ?thesis using Pb by (auto intro: only_emits_mono)
      qed
      with e2 have e4: "only_emits P st st3" by (blast intro: only_emits_trans)
      show ?thesis
      proof (cases c)
        case (Some e)
        with t prep None src b_ok bld have "r = Some e" "st' = st3"
          by (simp_all add: install_try_def and_then_def)
        with e4 show ?thesis by simp
      next
        case c_ok: None
        with t prep None src b_ok bld have "r = None"
          "st' = emit (Print (Installed n))
                 (save_metadata (st3\<lparr>metadata := (metadata st3)(n \<mapsto>
                    \<lparr>pkg_url = u, pkg_source = Some s, pkg_manual = Some m\<rparr>)\<rparr>))"
          by (simp_all add: install_try_def and_then_def)
        with e4 e3 f2 show ?thesis by auto
      qed
    qed
  qed
qed

lemma install_cases:
  assumes i: "install env u s m re st = (r, st')"
    and n: "n = extract_name u" and p: "p = path_join (package_dir st) n"
    and P1: "P (Rmtree p)" and P2: "P (Print (Installing n))"
    and P3: "\<And>e. P (Print (InstallationError e))"
    and Pvc: "\<And>e. vc_event e \<Longrightarrow> P e"
    and Pb: "\<And>e. build_event e \<Longrightarrow> P e"
  shows "(path_exists st p \<and> \<not> re \<and> r = None \<and> st' = emit (Print (AlreadyInstalled n)) st)
    \<or> (\<not> (path_exists st p \<and> \<not> re) \<and> only_emits P st st')
    \<or> (\<not> (path_exists st p \<and> \<not> re) \<and> r = None
        \<and> (\<exists>st3. only_emits P st st3 \<and> fs st3 p \<noteq> None
          \<and> st' = emit (Print (Installed n))
                 (save_metadata (st3\<lparr>metadata := (metadata st3)(n \<mapsto>
                    \<lparr>pkg_url = u, pkg_source = Some s, pkg_manual = Some m\<rparr>)\<rparr>))))"
proof (cases "path_exists st p \<and> \<not> re")
  case True
  with i n p show ?thesis by (simp add: install_def Let_def)
next
  case False
  obtain a st1 where t: "install_try env u s m re n p st = (a, st1)"
    by (cases "install_try env u s m re n p st")
  from install_try_emits [OF t P1 P2 Pvc Pb]
  consider (err) "a \<noteq> None" "only_emits P st st1"
    | (ok) st3 where "a = None" "only_emits P st st3" "fs st3 p \<noteq> None"
        "st1 = emit (Print (Installed n))
                 (save_metadata (st3\<lparr>metadata := (metadata st3)(n \<mapsto>
                    \<lparr>pkg_url = u, pkg_source = Some s, pkg_manual = Some m\<rparr>)\<rparr>))"
    by blast
  then show ?thesis
  proof cases
    case err
    then obtain e where e: "a = Some e" by auto
    have "st' = st1 \<or> st' = emit (Print (InstallationError e)) st1"
      using i n p False t e by (auto simp: install_def Let_def split: if_splits)
    moreover have "only_emits P st1 (emit (Print (InstallationError e)) st1)"
      using P3 by (rule only_emits_emit)
    ultimately have "only_emits P st1 st'" by (auto simp: only_emits_refl)
    with err(2) have "only_emits P st st'" by (rule only_emits_trans)
    with False show ?thesis by simp
  next
    case ok
    with i n p False t have "r = None" "st' = st1" by (auto simp: install_def Let_def)
    with ok False show ?thesis by blast
  qed
qed

lemma reports_emit_last: "reports st (emit e st) msg \<longleftrightarrow> e = Print msg"
  by (auto simp: reports_def new_events_def emit_def)

lemma only_emits_not_reports:
  assumes "only_emits P st st'" and "\<not> P (Print msg)"
  shows "\<not> reports st st' msg"
proof
  assume r: "reports st st' msg"
  from assms(1) have "list_all P (new_events st st')" by (simp add: only_emits_new_events)
  moreover from r have "Print msg \<in> set (new_events st st')"
    by (metis reports_def last_in_set)
  ultimately show False using assms(2) by (simp add: list_all_iff)
qed

lemma install_success:
  assumes i: "install env u s m re st = (r, st')"
    and rep: "reports st st' (Installed k)"
  shows "r = None \<and> (\<exists>st3. only_emits (\<lambda>e. \<not> final_event e) st st3
          \<and> fs st3 (path_join (package_dir st) (extract_name u)) \<noteq> None
          \<and> st' = emit (Print (Installed (extract_name u)))
                 (save_metadata (st3\<lparr>metadata := (metadata st3)(extract_name u \<mapsto>
                    \<lparr>pkg_url = u, pkg_source = Some s, pkg_manual = Some m\<rparr>)\<rparr>)))"
proof -
  let ?P = "\<lambda>e. \<not> final_event e"
  have "?P (Rmtree (path_join (package_dir st) (extract_name u)))"
    and "?P (Print (Installing (extract_name u)))"
    and "\<And>e. ?P (Print (InstallationError e))"
    by simp_all
  from install_cases [of env u s m re st r st' "extract_name u"
      "path_join (package_dir st) (extract_name u)" ?P, OF i refl refl this vc_not_final build_not_final]
  consider (already) "st' = emit (Print (AlreadyInstalled (extract_name u))) st"
    | (failed) "only_emits ?P st st'"
    | (succeeded) "r = None \<and> (\<exists>st3. only_emits ?P st st3
          \<and> fs st3 (path_join (package_dir st) (extract_name u)) \<noteq> None
          \<and> st' = emit (Print (Installed (extract_name u)))
                 (save_metadata (st3\<lparr>metadata := (metadata st3)(extract_name u \<mapsto>
                    \<lparr>pkg_url = u, pkg_source = Some s, pkg_manual = Some m\<rparr>)\<rparr>)))"
    by blast
  then show ?thesis
  proof cases
    case already
    with rep show ?thesis by (simp add: reports_emit_last)
  next
    case failed
    then have "\<not> reports st st' (Installed k)" by (rule only_emits_not_reports) simp
    with rep show ?thesis by simp
  next
    case succeeded
    then show ?thesis .
  qed
qed

lemma install_success_state:
  assumes i: "install env u s m re st = (r, st')"
    and rep: "reports st st' (Installed k)"
  shows "r = None"
    and "metadata st' = (metadata st)(extract_name u \<mapsto>
           \<lparr>pkg_url = u, pkg_source = Some s, pkg_manual = Some m\<rparr>)"
    and "metadata_file st' = metadata st'"
    and "package_dir st' = package_dir st"
    and "path_exists st' (path_join (package_dir st') (extract_name u))"
  using install_success [OF i rep]
  by (auto simp: only_emits_def emit_def save_metadata_def path_exists_def)

lemma install_prefix_emits:
  assumes prep: "(if re \<and> path_exists st p then remove_tree env p st else (None, st)) = (a, st1)"
    and src: "install_source env u s p (emit (Print (Installing n)) st1) = (b, st2)"
  shows "only_emits (\<lambda>e. \<not> final_event e) st st2"
proof -
  let ?P = "\<lambda>e. \<not> final_event e"
  have "only_emits ?P st st1"
  proof (cases "re \<and> path_exists st p")
    case True
    with prep have "remove_tree env p st = (a, st1)" by simp
    then have "only_emits (\<lambda>e. e = Rmtree p) st st1" by (rule remove_tree_emits)
    then show ?thesis by (rule only_emits_mono) simp
  next
    case False
    with prep show ?thesis by (simp add: only_emits_refl)
  qed
  moreover have "only_emits ?P st1 (emit (Print (Installing n)) st1)"
    by (rule only_emits_emit) simp
  moreover from src have "only_emits vc_event (emit (Print (Installing n)) st1) st2"
    by (rule install_source_emits)
  then have "only_emits ?P (emit (Print (Installing n)) st1) st2"
    using vc_not_final by (rule only_emits_mono)
  ultimately show ?thesis by (blast intro: only_emits_trans)
qed



lemma build_package_failed:
  "build_steps env p st = (Some CalledProcessError, st3) \<Longrightarrow>
     build_package env p st = (None, emit (Print BuildFailed) st3)"
  by (simp add: build_package_def)

lemma install_already_installed:
  "path_exists st (path_join (package_dir st) (extract_name u)) \<Longrightarrow>
     install env u s m False st = (None, emit (Print (AlreadyInstalled (extract_name u))) st)"
  by (simp add: install_def Let_def)

lemma install_fresh_not_already:
  assumes "\<not> path_exists st (path_join (package_dir st) (extract_name u))"
  shows "\<not> reports st (snd (install env u s m re st)) (AlreadyInstalled k)"
proof -
  let ?P = "\<lambda>e. e \<noteq> Print (AlreadyInstalled k)"
  let ?n = "extract_name u" and ?p = "path_join (package_dir st) (extract_name u)"
  obtain r st' where i: "install env u s m re st = (r, st')" by (cases "install env u s m re st")
  have vc: "\<And>e. vc_event e \<Longrightarrow> ?P e" by auto
  have b: "\<And>e. build_event e \<Longrightarrow> ?P e" by auto
  have "?P (Rmtree ?p)" and "?P (Print (Installing ?n))"
    and "\<And>e. ?P (Print (InstallationError e))"
    by simp_all
  from install_cases [of env u s m re st r st' ?n ?p ?P, OF i refl refl this vc b] assms
  consider (failed) "only_emits ?P st st'"
    | (succeeded) st3 where "only_emits ?P st st3"
        "st' = emit (Print (Installed ?n))
                 (save_metadata (st3\<lparr>metadata := (metadata st3)(?n \<mapsto>
                    \<lparr>pkg_url = u, pkg_source = Some s, pkg_manual = Some m\<rparr>)\<rparr>))"
    by blast
  then have "\<not> reports st st' (AlreadyInstalled k)"
  proof cases
    case failed
    then show ?thesis by (rule only_emits_not_reports) simp
  next
    case succeeded
    then show ?thesis
      by (auto simp: only_emits_def reports_def new_events_def emit_def save_metadata_def)
  qed
  with i show ?thesis by simp
qed

subsection \<open>Splitting\<close>








subsection \<open>The order of versions\<close>












subsection \<open>The sort\<close>






subsection \<open>The resolver\<close>




subsection \<open>Evaluation\<close>

lemmas demo_defs = demo_env_def demo_empty_def demo_installed_def demo_record_def
  demo_workspace_def demo_url_def demo_env_clone_fails_def demo_env_build_fails_def
  demo_env_checkout_fails_def demo_pinned_def demo_pinned_record_def
  demo_env_no_tags_def demo_env_mixed_tags_def demo_env_slash_tag_def

lemmas step_defs = install_def install_try_def install_source_def clone_from_def
  checkout_version_def repo_checkout_def build_package_def build_steps_def run_cmd_def
  and_then_def emit_def save_metadata_def path_exists_def file_exists_def path_join_def
  extract_name_def py_replace_def get_latest_tag_def truthy_def remove_tree_def
  update_def update_try_def update_source_def repo_pull_def repo_fetch_tags_def
  get_source_def get_manual_def reinstall_def Let_def

lemma demo_installed_sel [simp]:
  "trace (demo_installed m) = []"
  "package_dir (demo_installed m) = ''/pkgs''"
  "metadata (demo_installed m) = [''foo'' \<mapsto> demo_record m]"
  "metadata_file (demo_installed m) = [''foo'' \<mapsto> demo_record m]"
  "fs (demo_installed m) = [''/pkgs/foo'' \<mapsto> demo_workspace]"
  by (simp_all add: demo_installed_def)

lemma demo_empty_sel [simp]:
  "trace demo_empty = []"
  "package_dir demo_empty = ''/pkgs''"
  "metadata demo_empty = Map.empty"
  "metadata_file demo_empty = Map.empty"
  "fs demo_empty = Map.empty"
  by (simp_all add: demo_empty_def)

lemma demo_update_run:
  "update demo_env ''foo'' False (demo_installed False) =
     (None, (demo_installed False)\<lparr>trace :=
        [Print (Updating ''foo''), Pull ''/pkgs/foo'',
         Run [''make'', ''-C'', ''/pkgs/foo''],
         Run [''sudo'', ''make'', ''-C'', ''/pkgs/foo'', ''install''],
         Print BuildCompleted, Print (Updated ''foo'')]\<rparr>)"
  by (simp add: step_defs demo_defs)

lemma demo_update_manual_run:
  "update demo_env ''foo'' False (demo_installed True) =
     (None, (demo_installed True)\<lparr>trace :=
        [Print (Updating ''foo''), Pull ''/pkgs/foo'', Print (Updated ''foo'')]\<rparr>)"
  by (simp add: step_defs demo_defs)

lemma demo_name: "extract_name demo_url = ''foo''"
  by (simp add: demo_url_def extract_name_def py_replace_def)

lemma demo_path: "path_join ''/pkgs'' ''foo'' = ''/pkgs/foo''"
  by (simp add: path_join_def)

lemma demo_install_run:
  "install demo_env demo_url ''main'' False False demo_empty =
     (None, (demo_installed False)\<lparr>trace :=
        [Print (Installing ''foo''), CloneFrom demo_url ''/pkgs/foo'' None,
         Checkout ''/pkgs/foo'' ''main'',
         Run [''make'', ''-C'', ''/pkgs/foo''],
         Run [''sudo'', ''make'', ''-C'', ''/pkgs/foo'', ''install''],
         Print BuildCompleted, SaveMetadata, Print (Installed ''foo'')]\<rparr>)"
  by (simp add: step_defs demo_defs)

lemma demo_reinstall_run:
  "reinstall demo_env ''foo'' False (demo_installed False) =
     (None, (demo_installed False)\<lparr>trace :=
        [Rmtree ''/pkgs/foo'', Print (Installing ''foo''), CloneFrom demo_url ''/pkgs/foo'' None,
         Checkout ''/pkgs/foo'' ''main'',
         Run [''make'', ''-C'', ''/pkgs/foo''],
         Run [''sudo'', ''make'', ''-C'', ''/pkgs/foo'', ''install''],
         Print BuildCompleted, SaveMetadata, Print (Installed ''foo'')]\<rparr>)"
  by (simp add: step_defs demo_defs)


lemma demo_build_fails_source:
  "install_source demo_env_build_fails demo_url ''main'' ''/pkgs/foo''
      (emit (Print (Installing ''foo'')) demo_empty) =
     (None,
      demo_empty\<lparr>fs := [''/pkgs/foo'' \<mapsto> demo_workspace],
         trace := [Print (Installing ''foo''), CloneFrom demo_url ''/pkgs/foo'' None,
                   Checkout ''/pkgs/foo'' ''main'']\<rparr>)"
  by (simp add: install_source_def clone_from_def checkout_version_def repo_checkout_def
      emit_def demo_defs)

lemma demo_build_fails_steps:
  "build_steps demo_env_build_fails ''/pkgs/foo''
      (demo_empty\<lparr>fs := [''/pkgs/foo'' \<mapsto> demo_workspace],
         trace := [Print (Installing ''foo''), CloneFrom demo_url ''/pkgs/foo'' None,
                   Checkout ''/pkgs/foo'' ''main'']\<rparr>) =
     (Some CalledProcessError,
      demo_empty\<lparr>fs := [''/pkgs/foo'' \<mapsto> demo_workspace],
         trace := [Print (Installing ''foo''), CloneFrom demo_url ''/pkgs/foo'' None,
                   Checkout ''/pkgs/foo'' ''main'', Run [''make'', ''-C'', ''/pkgs/foo'']]\<rparr>)"
  by (simp add: build_steps_def run_cmd_def and_then_def file_exists_def emit_def demo_defs)

lemma demo_pinned_sel [simp]:
  "trace demo_pinned = []"
  "package_dir demo_pinned = ''/pkgs''"
  "metadata demo_pinned = [''foo'' \<mapsto> demo_pinned_record]"
  "metadata_file demo_pinned = [''foo'' \<mapsto> demo_pinned_record]"
  "fs demo_pinned = [''/pkgs/foo'' \<mapsto> demo_workspace]"
  by (simp_all add: demo_pinned_def)

lemma demo_reinstall_pinned_run:
  "reinstall demo_env ''foo'' False demo_pinned =
     (None, demo_pinned\<lparr>trace :=
        [Rmtree ''/pkgs/foo'', Print (Installing ''foo''), CloneFrom demo_url ''/pkgs/foo'' None,
         Checkout ''/pkgs/foo'' ''v1.2.0'', SaveMetadata, Print (Installed ''foo'')]\<rparr>)"
  by (simp add: step_defs demo_defs)

lemma demo_checkout_fails_run:
  "install demo_env_checkout_fails demo_url ''main'' False False demo_empty =
     (None, demo_empty\<lparr>fs := [''/pkgs/foo'' \<mapsto> demo_workspace],
        trace := [Print (Installing ''foo''), CloneFrom demo_url ''/pkgs/foo'' None,
                  Checkout ''/pkgs/foo'' ''main'', Print (InstallationError GitCommandError)]\<rparr>)"
  by (simp add: step_defs demo_defs)

lemma demo_checkout_fails_again:
  "install demo_env_checkout_fails demo_url ''main'' False False
     (demo_empty\<lparr>fs := [''/pkgs/foo'' \<mapsto> demo_workspace],
        trace := [Print (Installing ''foo''), CloneFrom demo_url ''/pkgs/foo'' None,
                  Checkout ''/pkgs/foo'' ''main'', Print (InstallationError GitCommandError)]\<rparr>) =
     (None, demo_empty\<lparr>fs := [''/pkgs/foo'' \<mapsto> demo_workspace],
        trace := [Print (Installing ''foo''), CloneFrom demo_url ''/pkgs/foo'' None,
                  Checkout ''/pkgs/foo'' ''main'', Print (InstallationError GitCommandError),
                  Print (AlreadyInstalled ''foo'')]\<rparr>)"
  by (simp add: step_defs demo_defs)




lemma demo_no_tags_latest: "latest_of_listing (ls_remote_output []) = Inl IndexError"
  by code_simp




lemma demo_no_tags_run:
  "install demo_env_no_tags demo_url ''latest-release'' False False demo_empty =
     (Some IndexError,
      demo_empty\<lparr>trace := [Print (Installing ''foo''), LsRemote demo_url]\<rparr>)"
  by (simp add: step_defs demo_defs demo_no_tags_latest)

section \<open>Claims\<close>

text \<open>
  C1. The claim: for a repository without tags the resolver gives the signal \<open>no tag\<close>
  and \<open>install\<close> falls back to cloning the default branch, so the install succeeds.
  \<open>_get_latest_tag\<close> prepares for it (\<open>if tags else None\<close>, and \<open>install\<close> clones without a
  branch when the result is empty), but \<open>ls_remote\<close> prints nothing for such a repository
  and \<open>''.split('\n')\<close> is \<open>['']\<close>, not the empty list: the guard is never false, \<open>[1]\<close> on the
  one field of the empty line raises \<open>IndexError\<close>, which \<open>install\<close> does not catch. Nothing
  is cloned and nothing is recorded. \<open>_checkout_version\<close>, which sorts a list of tags and
  not the lines of a text, takes the empty case as meant.
\<close>

theorem latest_release_without_tags:
  "ls_remote_output [] = []
   \<and> fst (get_latest_tag demo_env_no_tags demo_url demo_empty) = Inl IndexError
   \<and> install demo_env_no_tags demo_url ''latest-release'' False False demo_empty =
       (Some IndexError,
        demo_empty\<lparr>trace := [Print (Installing ''foo''), LsRemote demo_url]\<rparr>)
   \<and> checkout_version demo_env ''/pkgs/foo'' \<lparr>files = [], tag_names = []\<rparr>
         ''latest-release'' demo_empty
       = (None, emit (Print NoReleasesFound) demo_empty)"
proof -
  have "ls_remote_output [] = []" by (simp add: ls_remote_output_def)
  moreover have "fst (get_latest_tag demo_env_no_tags demo_url demo_empty) = Inl IndexError"
    by (simp add: get_latest_tag_def demo_defs demo_no_tags_latest)
  moreover have "sorted_tags [] = Inr []" by (simp add: sorted_tags_def sorted_reverse_def)
  then have "checkout_version demo_env ''/pkgs/foo'' \<lparr>files = [], tag_names = []\<rparr>
         ''latest-release'' demo_empty
       = (None, emit (Print NoReleasesFound) demo_empty)"
    by (simp add: checkout_version_def)
  ultimately show ?thesis using demo_no_tags_run by simp
qed






text \<open>
  C4. With \<open>manual\<close> false, an install whose clone and checkout block ended without an
  exception and whose build ran into a command that exited non-zero
  (\<open>CalledProcessError\<close>) still returns normally: the record is written, the store is
  saved with it, the last message is the success message, and the build failure was
  printed on the way.
\<close>

theorem install_build_failure_recorded:
  assumes n: "n = extract_name repo_url" and p: "p = path_join (package_dir st) n"
    and attempted: "reinstall_flag \<or> \<not> path_exists st p"
    and prep: "(if reinstall_flag \<and> path_exists st p then remove_tree env p st else (None, st))
                 = (None, st1)"
    and vc: "install_source env repo_url source p (emit (Print (Installing n)) st1) = (None, st2)"
    and build: "build_steps env p st2 = (Some CalledProcessError, st3)"
    and i: "install env repo_url source False reinstall_flag st = (r, st')"
  shows "r = None
    \<and> metadata st' = (metadata st)(n \<mapsto>
         \<lparr>pkg_url = repo_url, pkg_source = Some source, pkg_manual = Some False\<rparr>)
    \<and> metadata_file st' = metadata st'
    \<and> reports st st' (Installed n)
    \<and> Print BuildFailed \<in> set (new_events st st')"
proof -
  let ?P = "\<lambda>e. \<not> final_event e"
  let ?rec = "\<lparr>pkg_url = repo_url, pkg_source = Some source, pkg_manual = Some False\<rparr>"
  let ?st4 = "emit (Print BuildFailed) st3"
  let ?st5 = "save_metadata (?st4\<lparr>metadata := (metadata ?st4)(n \<mapsto> ?rec)\<rparr>)"
  from prep vc have e2: "only_emits ?P st st2" by (rule install_prefix_emits)
  from build have "only_emits build_event st2 st3" by (simp add: build_steps_emits)
  then have "only_emits ?P st2 st3" using build_not_final by (rule only_emits_mono)
  with e2 have e3: "only_emits ?P st st3" by (rule only_emits_trans)
  have "install_try env repo_url source False reinstall_flag n p st
          = (None, emit (Print (Installed n)) ?st5)"
    using prep vc build by (simp add: install_try_def and_then_def build_package_failed)
  with attempted n p i have r: "r = None" and s: "st' = emit (Print (Installed n)) ?st5"
    by (auto simp: install_def Let_def)
  from e3 obtain evs where evs: "trace st3 = trace st @ evs" "metadata st3 = metadata st"
    by (auto simp: only_emits_def)
  have t: "new_events st st' = evs @ [Print BuildFailed, SaveMetadata, Print (Installed n)]"
    using evs s by (simp add: new_events_def emit_def save_metadata_def)
  have "metadata st' = (metadata st)(n \<mapsto> ?rec)" "metadata_file st' = metadata st'"
    using evs s by (simp_all add: emit_def save_metadata_def)
  moreover have "reports st st' (Installed n)" using t by (simp add: reports_def)
  moreover have "Print BuildFailed \<in> set (new_events st st')" using t by simp
  ultimately show ?thesis using r by simp
qed

theorem install_build_failure_recorded_witness:
  "install_source demo_env_build_fails demo_url ''main'' ''/pkgs/foo''
      (emit (Print (Installing ''foo'')) demo_empty) =
     (None,
      demo_empty\<lparr>fs := [''/pkgs/foo'' \<mapsto> demo_workspace],
         trace := [Print (Installing ''foo''), CloneFrom demo_url ''/pkgs/foo'' None,
                   Checkout ''/pkgs/foo'' ''main'']\<rparr>)
   \<and> fst (build_steps demo_env_build_fails ''/pkgs/foo''
      (demo_empty\<lparr>fs := [''/pkgs/foo'' \<mapsto> demo_workspace],
         trace := [Print (Installing ''foo''), CloneFrom demo_url ''/pkgs/foo'' None,
                   Checkout ''/pkgs/foo'' ''main'']\<rparr>)) = Some CalledProcessError
   \<and> fst (install demo_env_build_fails demo_url ''main'' False False demo_empty) = None
   \<and> metadata (snd (install demo_env_build_fails demo_url ''main'' False False demo_empty))
       = [''foo'' \<mapsto> \<lparr>pkg_url = demo_url, pkg_source = Some ''main'', pkg_manual = Some False\<rparr>]
   \<and> metadata_file (snd (install demo_env_build_fails demo_url ''main'' False False demo_empty))
       = [''foo'' \<mapsto> \<lparr>pkg_url = demo_url, pkg_source = Some ''main'', pkg_manual = Some False\<rparr>]
   \<and> reports demo_empty
        (snd (install demo_env_build_fails demo_url ''main'' False False demo_empty))
        (Installed ''foo'')
   \<and> Print BuildFailed \<in> set (new_events demo_empty
        (snd (install demo_env_build_fails demo_url ''main'' False False demo_empty)))"
proof -
  have n: "''foo'' = extract_name demo_url" by (simp add: demo_name)
  have p: "''/pkgs/foo'' = path_join (package_dir demo_empty) ''foo''" by (simp add: demo_path)
  have a: "False \<or> \<not> path_exists demo_empty ''/pkgs/foo''" by (simp add: path_exists_def)
  have prep: "(if False \<and> path_exists demo_empty ''/pkgs/foo''
               then remove_tree demo_env_build_fails ''/pkgs/foo'' demo_empty
               else (None, demo_empty)) = (None, demo_empty)"
    by simp
  from install_build_failure_recorded
    [OF n p a prep demo_build_fails_source demo_build_fails_steps surjective_pairing]
  show ?thesis
    using demo_build_fails_source demo_build_fails_steps by simp
qed

text \<open>
  C5. As stated the claim fails: when the first install fails after the clone (here at the
  checkout), the workspace stays on disk, and the second call answers \<open>already installed\<close>
  although the store holds no record for the name, in memory or on disk.
\<close>

theorem install_twice_after_failed_checkout:
  "install demo_env_checkout_fails demo_url ''main'' False False demo_empty =
     (None, demo_empty\<lparr>fs := [''/pkgs/foo'' \<mapsto> demo_workspace],
        trace := [Print (Installing ''foo''), CloneFrom demo_url ''/pkgs/foo'' None,
                  Checkout ''/pkgs/foo'' ''main'', Print (InstallationError GitCommandError)]\<rparr>)
   \<and> reports
        (snd (install demo_env_checkout_fails demo_url ''main'' False False demo_empty))
        (snd (install demo_env_checkout_fails demo_url ''main'' False False
               (snd (install demo_env_checkout_fails demo_url ''main'' False False demo_empty))))
        (AlreadyInstalled ''foo'')
   \<and> metadata (snd (install demo_env_checkout_fails demo_url ''main'' False False
               (snd (install demo_env_checkout_fails demo_url ''main'' False False demo_empty))))
         ''foo'' = None
   \<and> metadata_file (snd (install demo_env_checkout_fails demo_url ''main'' False False
               (snd (install demo_env_checkout_fails demo_url ''main'' False False demo_empty))))
         ''foo'' = None"
  by (simp add: demo_checkout_fails_run demo_checkout_fails_again reports_def new_events_def)

text \<open>
  C5, amended. When an install of \<open>L\<close> has ended with its success message, the store in
  memory and on disk is the store before it plus the one record for the name of \<open>L\<close>, and an
  install of \<open>L\<close> without \<open>reinstall\<close> (whatever its other arguments) only prints that the
  package is already installed: the state it leaves is the state it found plus that line.
  On any state the call answers \<open>already installed\<close> exactly when the directory of the name
  exists; the store is not consulted.
\<close>

theorem install_twice:
  assumes first: "install env L source manual reinstall_flag st = (r, st1)"
    and ok: "reports st st1 (Installed (extract_name L))"
  shows "install env L source2 manual2 False st1
           = (None, emit (Print (AlreadyInstalled (extract_name L))) st1)
    \<and> metadata st1 = (metadata st)(extract_name L \<mapsto>
           \<lparr>pkg_url = L, pkg_source = Some source, pkg_manual = Some manual\<rparr>)
    \<and> metadata_file st1 = (metadata st)(extract_name L \<mapsto>
           \<lparr>pkg_url = L, pkg_source = Some source, pkg_manual = Some manual\<rparr>)
    \<and> metadata (emit (Print (AlreadyInstalled (extract_name L))) st1) = metadata st1
    \<and> metadata_file (emit (Print (AlreadyInstalled (extract_name L))) st1) = metadata_file st1
    \<and> (\<forall>st2. reports st2 (snd (install env L source2 manual2 False st2))
                 (AlreadyInstalled (extract_name L))
               = path_exists st2 (path_join (package_dir st2) (extract_name L)))"
proof -
  from install_success_state [OF first ok]
  have m: "metadata st1 = (metadata st)(extract_name L \<mapsto>
           \<lparr>pkg_url = L, pkg_source = Some source, pkg_manual = Some manual\<rparr>)"
    and f: "metadata_file st1 = metadata st1"
    and e: "path_exists st1 (path_join (package_dir st1) (extract_name L))"
    by simp_all
  from e have "install env L source2 manual2 False st1
           = (None, emit (Print (AlreadyInstalled (extract_name L))) st1)"
    by (rule install_already_installed)
  moreover from m f have "metadata_file st1 = (metadata st)(extract_name L \<mapsto>
           \<lparr>pkg_url = L, pkg_source = Some source, pkg_manual = Some manual\<rparr>)"
    by simp
  moreover have "metadata (emit (Print (AlreadyInstalled (extract_name L))) st1) = metadata st1"
    "metadata_file (emit (Print (AlreadyInstalled (extract_name L))) st1) = metadata_file st1"
    by (simp_all add: emit_def)
  moreover have "reports st2 (snd (install env L source2 manual2 False st2))
                 (AlreadyInstalled (extract_name L))
               = path_exists st2 (path_join (package_dir st2) (extract_name L))" for st2
    using install_already_installed [of st2 L env source2 manual2]
      install_fresh_not_already [of st2 L env source2 manual2 False "extract_name L"]
    by (auto simp: reports_emit_last)
  ultimately show ?thesis using m by blast
qed

theorem install_twice_witness:
  "reports demo_empty (snd (install demo_env demo_url ''main'' False False demo_empty))
     (Installed (extract_name demo_url))
   \<and> install demo_env demo_url ''main'' False False
        (snd (install demo_env demo_url ''main'' False False demo_empty))
       = (None, emit (Print (AlreadyInstalled ''foo''))
            (snd (install demo_env demo_url ''main'' False False demo_empty)))
   \<and> metadata (snd (install demo_env demo_url ''main'' False False demo_empty))
       = [''foo'' \<mapsto> \<lparr>pkg_url = demo_url, pkg_source = Some ''main'', pkg_manual = Some False\<rparr>]
   \<and> metadata_file (snd (install demo_env demo_url ''main'' False False demo_empty))
       = [''foo'' \<mapsto> \<lparr>pkg_url = demo_url, pkg_source = Some ''main'', pkg_manual = Some False\<rparr>]"
proof -
  have rep: "reports demo_empty (snd (install demo_env demo_url ''main'' False False demo_empty))
     (Installed (extract_name demo_url))"
    by (simp add: demo_install_run demo_name reports_def new_events_def)
  from install_twice [OF surjective_pairing rep, of "''main''" False] rep
  show ?thesis by (simp add: demo_name)
qed

text \<open>
  C6. The claim: the derived name is the final path segment of the locator with a trailing
  \<open>.git\<close> stripped, and a segment that does not end in \<open>.git\<close> is returned unchanged.
  \<open>_extract_name\<close> calls \<open>replace\<close>, which removes every occurrence of \<open>.git\<close>, also inside
  the segment: the repository \<open>user.github.io\<close> does not end in \<open>.git\<close> and is yet renamed
  to \<open>userhub.io\<close>; with the suffix present, \<open>user.github.io.git\<close> gives the same name
  instead of \<open>user.github.io\<close>.
\<close>

theorem extract_name_inner_dot_git:
  "last (py_split CHR ''/'' ''https://github.com/user/user.github.io'') = ''user.github.io''
   \<and> extract_name ''https://github.com/user/user.github.io'' = ''userhub.io''
   \<and> extract_name ''https://github.com/user/user.github.io.git'' = ''userhub.io''"
  by (simp add: extract_name_def py_replace_def)

text \<open>
  C7. When the record of the package has \<open>manual\<close> set, or the call passes \<open>manual\<close>,
  \<open>update\<close> adds no event of \<open>_build_package\<close> to the trace (no command is run, neither of
  its two messages is printed), whatever the collaborators answer: the build runs only
  when both flags are false.
\<close>

theorem update_manual_record_no_build:
  assumes "metadata st package_name = Some record"
    and "manual \<or> get_manual record"
    and "update env package_name manual st = (r, st')"
  shows "trace st' = trace st @ new_events st st'
    \<and> list_all (\<lambda>e. \<not> build_event e) (new_events st st')"
proof -
  have "only_emits (\<lambda>e. \<not> build_event e) st st'"
  proof (rule update_emits [OF assms(3)])
    fix e assume "vc_event e" then show "\<not> build_event e" by (rule vc_not_build)
  next
    fix e :: event and rec :: package
    assume "metadata st package_name = Some rec" "\<not> manual" "\<not> get_manual rec"
    with assms(1,2) show "\<not> build_event e" by simp
  qed simp_all
  then show ?thesis using only_emits_new_events by blast
qed

theorem update_manual_record_no_build_witness:
  "metadata (demo_installed True) ''foo'' = Some (demo_record True)
   \<and> get_manual (demo_record True)
   \<and> fst (update demo_env ''foo'' False (demo_installed True)) = None
   \<and> new_events (demo_installed True) (snd (update demo_env ''foo'' False (demo_installed True)))
       = [Print (Updating ''foo''), Pull ''/pkgs/foo'', Print (Updated ''foo'')]
   \<and> list_all (\<lambda>e. \<not> build_event e)
       (new_events (demo_installed True) (snd (update demo_env ''foo'' False (demo_installed True))))"
proof -
  have m: "metadata (demo_installed True) ''foo'' = Some (demo_record True)"
    by simp
  have g: "get_manual (demo_record True)"
    by (simp add: demo_record_def get_manual_def)
  then have g': "False \<or> get_manual (demo_record True)" by simp
  have r: "fst (update demo_env ''foo'' False (demo_installed True)) = None"
    and n: "new_events (demo_installed True)
        (snd (update demo_env ''foo'' False (demo_installed True)))
       = [Print (Updating ''foo''), Pull ''/pkgs/foo'', Print (Updated ''foo'')]"
    by (simp_all add: demo_update_manual_run new_events_def)
  from update_manual_record_no_build [OF m g' surjective_pairing]
  have "list_all (\<lambda>e. \<not> build_event e)
       (new_events (demo_installed True) (snd (update demo_env ''foo'' False (demo_installed True))))"
    by simp
  with m g r n show ?thesis by simp
qed

text \<open>
  C8. \<open>reinstall\<close> as the code has it is \<open>reinstall_spec\<close>, the operation as the
  specification words it on the stored fields. For a name that is not in the store it
  prints \<open>not found\<close> and does nothing else. For a name whose record holds the locator
  \<open>url\<close>, the policy \<open>policy\<close> and the flag \<open>m\<close> it is \<open>install\<close> on \<open>url\<close> and \<open>policy\<close>, with
  \<open>manual\<close> the caller's flag or \<open>m\<close>, and \<open>reinstall\<close> true; when that install ends with its
  success message the record written holds \<open>url\<close>, \<open>policy\<close> and the flag (caller's or
  \<open>m\<close>), and is saved. In particular a record with \<open>manual\<close> false reinstalled with
  \<open>manual\<close> false holds \<open>manual\<close> false again.
\<close>

theorem reinstall_refines_install:
  "reinstall env name caller_manual st = reinstall_spec env name caller_manual st
   \<and> (metadata st name = None \<longrightarrow>
        reinstall env name caller_manual st = (None, emit (Print (NotFound name)) st))
   \<and> (\<forall>url policy m. metadata st name =
          Some \<lparr>pkg_url = url, pkg_source = Some policy, pkg_manual = Some m\<rparr> \<longrightarrow>
        reinstall env name caller_manual st =
          install env url policy (caller_manual \<or> m) True st)
   \<and> (\<forall>url policy m r st'. metadata st name =
          Some \<lparr>pkg_url = url, pkg_source = Some policy, pkg_manual = Some m\<rparr>
        \<and> reinstall env name caller_manual st = (r, st')
        \<and> reports st st' (Installed (extract_name url)) \<longrightarrow>
        metadata st' (extract_name url) =
          Some \<lparr>pkg_url = url, pkg_source = Some policy,
                pkg_manual = Some (caller_manual \<or> m)\<rparr>
        \<and> metadata_file st' = metadata st')"
proof -
  have a: "reinstall env name caller_manual st = reinstall_spec env name caller_manual st"
  proof (cases "metadata st name")
    case None
    then show ?thesis by (simp add: reinstall_def reinstall_spec_def)
  next
    case (Some stored)
    have "get_source stored = (case pkg_source stored of Some policy \<Rightarrow> policy | None \<Rightarrow> ''main'')"
      by (simp add: get_source_def split: option.splits)
    moreover have "get_manual stored = (pkg_manual stored = Some True)"
      by (auto simp: get_manual_def split: option.splits)
    ultimately show ?thesis using Some by (simp add: reinstall_def reinstall_spec_def)
  qed
  have b: "metadata st name = None \<longrightarrow>
        reinstall env name caller_manual st = (None, emit (Print (NotFound name)) st)"
    by (simp add: reinstall_def)
  have c: "reinstall env name caller_manual st =
          install env url policy (caller_manual \<or> m) True st"
    if "metadata st name = Some \<lparr>pkg_url = url, pkg_source = Some policy, pkg_manual = Some m\<rparr>"
    for url policy m
    using that by (simp add: reinstall_def get_source_def get_manual_def)
  have d: "metadata st' (extract_name url) =
          Some \<lparr>pkg_url = url, pkg_source = Some policy,
                pkg_manual = Some (caller_manual \<or> m)\<rparr>
        \<and> metadata_file st' = metadata st'"
    if "metadata st name = Some \<lparr>pkg_url = url, pkg_source = Some policy, pkg_manual = Some m\<rparr>"
      "reinstall env name caller_manual st = (r, st')"
      "reports st st' (Installed (extract_name url))"
    for url policy m r st'
  proof -
    from c [OF that(1)] that(2)
    have i: "install env url policy (caller_manual \<or> m) True st = (r, st')" by simp
    from install_success_state(2,3) [OF i that(3)] show ?thesis by simp
  qed
  from a b c d show ?thesis by blast
qed

theorem reinstall_refines_install_witness:
  "metadata demo_pinned ''foo'' =
     Some \<lparr>pkg_url = demo_url, pkg_source = Some ''v1.2.0'', pkg_manual = Some True\<rparr>
   \<and> reinstall demo_env ''foo'' False demo_pinned
       = install demo_env demo_url ''v1.2.0'' True True demo_pinned
   \<and> new_events demo_pinned (snd (reinstall demo_env ''foo'' False demo_pinned))
       = [Rmtree ''/pkgs/foo'', Print (Installing ''foo''),
          CloneFrom demo_url ''/pkgs/foo'' None, Checkout ''/pkgs/foo'' ''v1.2.0'',
          SaveMetadata, Print (Installed ''foo'')]
   \<and> metadata (snd (reinstall demo_env ''foo'' False demo_pinned)) ''foo''
       = Some \<lparr>pkg_url = demo_url, pkg_source = Some ''v1.2.0'', pkg_manual = Some True\<rparr>
   \<and> metadata (demo_installed False) ''foo''
       = Some \<lparr>pkg_url = demo_url, pkg_source = Some ''main'', pkg_manual = Some False\<rparr>
   \<and> metadata (snd (reinstall demo_env ''foo'' False (demo_installed False))) ''foo''
       = Some \<lparr>pkg_url = demo_url, pkg_source = Some ''main'', pkg_manual = Some False\<rparr>
   \<and> metadata demo_empty ''foo'' = None
   \<and> reinstall demo_env ''foo'' False demo_empty = (None, emit (Print (NotFound ''foo'')) demo_empty)"
proof -
  let ?pin = "\<lparr>pkg_url = demo_url, pkg_source = Some ''v1.2.0'', pkg_manual = Some True\<rparr>"
  let ?dfl = "\<lparr>pkg_url = demo_url, pkg_source = Some ''main'', pkg_manual = Some False\<rparr>"
  have m: "metadata demo_pinned ''foo'' = Some ?pin" by (simp add: demo_pinned_record_def)
  have m': "metadata (demo_installed False) ''foo'' = Some ?dfl" by (simp add: demo_record_def)
  have e: "metadata demo_empty ''foo'' = None" by simp
  have ev: "new_events demo_pinned (snd (reinstall demo_env ''foo'' False demo_pinned))
       = [Rmtree ''/pkgs/foo'', Print (Installing ''foo''),
          CloneFrom demo_url ''/pkgs/foo'' None, Checkout ''/pkgs/foo'' ''v1.2.0'',
          SaveMetadata, Print (Installed ''foo'')]"
    by (simp add: demo_reinstall_pinned_run new_events_def)
  then have rep: "reports demo_pinned (snd (reinstall demo_env ''foo'' False demo_pinned))
       (Installed (extract_name demo_url))"
    by (simp add: reports_def demo_name)
  have rep': "reports (demo_installed False)
       (snd (reinstall demo_env ''foo'' False (demo_installed False)))
       (Installed (extract_name demo_url))"
    by (simp add: demo_reinstall_run reports_def new_events_def demo_name)
  note at_pin = reinstall_refines_install [of demo_env "''foo''" False demo_pinned]
  note at_dfl = reinstall_refines_install [of demo_env "''foo''" False "demo_installed False"]
  note at_empty = reinstall_refines_install [of demo_env "''foo''" False demo_empty]
  from at_pin have "\<forall>url policy m. metadata demo_pinned ''foo'' =
          Some \<lparr>pkg_url = url, pkg_source = Some policy, pkg_manual = Some m\<rparr> \<longrightarrow>
        reinstall demo_env ''foo'' False demo_pinned =
          install demo_env url policy (False \<or> m) True demo_pinned"
    by blast
  from this [rule_format, OF m]
  have 1: "reinstall demo_env ''foo'' False demo_pinned
       = install demo_env demo_url ''v1.2.0'' True True demo_pinned"
    by simp
  from at_pin have "\<forall>url policy m r st'. metadata demo_pinned ''foo'' =
          Some \<lparr>pkg_url = url, pkg_source = Some policy, pkg_manual = Some m\<rparr>
        \<and> reinstall demo_env ''foo'' False demo_pinned = (r, st')
        \<and> reports demo_pinned st' (Installed (extract_name url)) \<longrightarrow>
        metadata st' (extract_name url) =
          Some \<lparr>pkg_url = url, pkg_source = Some policy, pkg_manual = Some (False \<or> m)\<rparr>
        \<and> metadata_file st' = metadata st'"
    by blast
  from this [rule_format, of demo_url "''v1.2.0''" True
      "fst (reinstall demo_env ''foo'' False demo_pinned)"
      "snd (reinstall demo_env ''foo'' False demo_pinned)"] m rep
  have 2: "metadata (snd (reinstall demo_env ''foo'' False demo_pinned)) ''foo'' = Some ?pin"
    by (simp add: demo_name)
  from at_dfl have "\<forall>url policy m r st'. metadata (demo_installed False) ''foo'' =
          Some \<lparr>pkg_url = url, pkg_source = Some policy, pkg_manual = Some m\<rparr>
        \<and> reinstall demo_env ''foo'' False (demo_installed False) = (r, st')
        \<and> reports (demo_installed False) st' (Installed (extract_name url)) \<longrightarrow>
        metadata st' (extract_name url) =
          Some \<lparr>pkg_url = url, pkg_source = Some policy, pkg_manual = Some (False \<or> m)\<rparr>
        \<and> metadata_file st' = metadata st'"
    by blast
  from this [rule_format, of demo_url "''main''" False
      "fst (reinstall demo_env ''foo'' False (demo_installed False))"
      "snd (reinstall demo_env ''foo'' False (demo_installed False))"] m' rep'
  have 3: "metadata (snd (reinstall demo_env ''foo'' False (demo_installed False))) ''foo''
       = Some ?dfl"
    by (simp add: demo_name)
  from at_empty e have 4: "reinstall demo_env ''foo'' False demo_empty
      = (None, emit (Print (NotFound ''foo'')) demo_empty)"
    by blast
  from m 1 ev 2 m' 3 e 4 show ?thesis by simp
qed

text \<open>
  C9. \<open>update\<close> leaves the store as it was, in memory and on disk, on every path (not
  found, success, an error caught or uncaught), and never saves it.
\<close>

theorem update_store_unchanged:
  assumes "update env package_name manual st = (r, st')"
  shows "metadata st' = metadata st \<and> metadata_file st' = metadata_file st
    \<and> trace st' = trace st @ new_events st st'
    \<and> list_all (\<lambda>e. e \<noteq> SaveMetadata) (new_events st st')"
proof -
  have "only_emits (\<lambda>e. e \<noteq> SaveMetadata) st st'"
  proof (rule update_emits [OF assms])
    fix e assume "vc_event e" then show "e \<noteq> SaveMetadata" by auto
  next
    fix e :: event and rec :: package
    assume "build_event e" then show "e \<noteq> SaveMetadata" by auto
  qed simp_all
  then show ?thesis
    using only_emits_new_events only_emits_store by blast
qed

theorem update_store_unchanged_witness:
  "fst (update demo_env ''foo'' False (demo_installed False)) = None
   \<and> metadata (snd (update demo_env ''foo'' False (demo_installed False)))
       = metadata (demo_installed False)
   \<and> metadata_file (snd (update demo_env ''foo'' False (demo_installed False)))
       = metadata_file (demo_installed False)
   \<and> list_all (\<lambda>e. e \<noteq> SaveMetadata)
       (new_events (demo_installed False) (snd (update demo_env ''foo'' False (demo_installed False))))"
proof -
  have r: "fst (update demo_env ''foo'' False (demo_installed False)) = None"
    by (simp add: demo_update_run)
  from update_store_unchanged [of demo_env "''foo''" False "demo_installed False",
      OF surjective_pairing] r
  show ?thesis by blast
qed

text \<open>
  C10. \<open>_build_package\<close> looks for a \<open>Makefile\<close> first. When there is one, the commands it
  runs are \<open>make\<close> and then, if \<open>make\<close> did not raise, \<open>sudo make install\<close>, and nothing else,
  whether or not there is a \<open>setup.py\<close>. \<open>sudo python3 -m pip install\<close> is the one
  command run when there is a \<open>setup.py\<close> and no \<open>Makefile\<close>. With neither file no command
  is run and the method returns after printing its success message.
\<close>

theorem build_package_paths:
  "(file_exists st p ''Makefile'' \<longrightarrow>
      filter is_run (new_events st (snd (build_package env p st))) =
        (if subprocess_run env [''make'', ''-C'', p] = None
         then [Run [''make'', ''-C'', p], Run [''sudo'', ''make'', ''-C'', p, ''install'']]
         else [Run [''make'', ''-C'', p]]))
   \<and> (\<not> file_exists st p ''Makefile'' \<and> file_exists st p ''setup.py'' \<longrightarrow>
      filter is_run (new_events st (snd (build_package env p st))) =
        [Run [''sudo'', ''python3'', ''-m'', ''pip'', ''install'', p]])
   \<and> (\<not> file_exists st p ''Makefile'' \<and> \<not> file_exists st p ''setup.py'' \<longrightarrow>
      build_package env p st = (None, emit (Print BuildCompleted) st))"
  by (auto simp: build_package_def build_steps_def run_cmd_def and_then_def emit_def
      new_events_def split: option.splits)

theorem build_package_paths_witness:
  "file_exists (demo_installed False) ''/pkgs/foo'' ''Makefile''
   \<and> file_exists (demo_installed False) ''/pkgs/foo'' ''setup.py''
   \<and> filter is_run (new_events (demo_installed False)
        (snd (build_package demo_env ''/pkgs/foo'' (demo_installed False)))) =
       [Run [''make'', ''-C'', ''/pkgs/foo''],
        Run [''sudo'', ''make'', ''-C'', ''/pkgs/foo'', ''install'']]
   \<and> \<not> file_exists demo_empty ''/pkgs/foo'' ''Makefile''
   \<and> \<not> file_exists demo_empty ''/pkgs/foo'' ''setup.py''
   \<and> build_package demo_env ''/pkgs/foo'' demo_empty =
       (None, emit (Print BuildCompleted) demo_empty)"
proof -
  have a: "file_exists (demo_installed False) ''/pkgs/foo'' ''Makefile''"
    and b: "file_exists (demo_installed False) ''/pkgs/foo'' ''setup.py''"
    and c: "\<not> file_exists demo_empty ''/pkgs/foo'' ''Makefile''"
    and d: "\<not> file_exists demo_empty ''/pkgs/foo'' ''setup.py''"
    and e: "subprocess_run demo_env [''make'', ''-C'', ''/pkgs/foo''] = None"
    by (simp_all add: file_exists_def demo_defs)
  from build_package_paths [of "demo_installed False" "''/pkgs/foo''" demo_env] a e
  have 1: "filter is_run (new_events (demo_installed False)
        (snd (build_package demo_env ''/pkgs/foo'' (demo_installed False)))) =
       [Run [''make'', ''-C'', ''/pkgs/foo''],
        Run [''sudo'', ''make'', ''-C'', ''/pkgs/foo'', ''install'']]"
    by simp
  from build_package_paths [of demo_empty "''/pkgs/foo''" demo_env] c d
  have 2: "build_package demo_env ''/pkgs/foo'' demo_empty =
       (None, emit (Print BuildCompleted) demo_empty)"
    by simp
  from a b c d 1 2 show ?thesis by simp
qed

end
